theory Spec2Isabelle
  imports Main
begin

section \<open>Utilities (src/lib/utils.ts)\<close>

text \<open>
  Identifiers, roles and every other text column are JavaScript strings; they are modelled
  as \<open>string\<close>. Timestamps are the millisecond counts that a JavaScript \<open>Date\<close> compares.
\<close>

type_synonym timestamp = int

text \<open>
  \<open>Array.prototype.indexOf\<close>: the index of the first element equal to the argument,
  or \<open>-1\<close> when there is none.
\<close>

fun indexOf_from :: "'a list \<Rightarrow> 'a \<Rightarrow> int \<Rightarrow> int" where
  "indexOf_from [] x i = - 1"
| "indexOf_from (y # ys) x i = (if y = x then i else indexOf_from ys x (i + 1))"

definition indexOf :: "'a list \<Rightarrow> 'a \<Rightarrow> int" where
  "indexOf xs x = indexOf_from xs x 0"

definition hierarchy :: "string list" where
  "hierarchy = [''readonly'', ''member'', ''admin'', ''owner'']"

definition hasRole :: "string \<Rightarrow> string \<Rightarrow> bool" where
  "hasRole userRole requiredRole =
     (let userLevel = indexOf hierarchy userRole;
          requiredLevel = indexOf hierarchy requiredRole
      in userLevel \<ge> requiredLevel)"

text \<open>
  \<open>isValidDid\<close> tests the regular expression \<^verbatim>\<open>/^did:imajin:[a-zA-Z0-9]+$/\<close>: the
  eleven characters \<^verbatim>\<open>did:imajin:\<close> followed by one or more ASCII letters or digits and
  nothing else.
\<close>

definition isAlnum :: "char \<Rightarrow> bool" where
  "isAlnum c =
     (let n = (of_char c :: nat)
      in (97 \<le> n \<and> n \<le> 122) \<or> (65 \<le> n \<and> n \<le> 90) \<or> (48 \<le> n \<and> n \<le> 57))"

definition isValidDid :: "string \<Rightarrow> bool" where
  "isValidDid d =
     (take 11 d = ''did:imajin:'' \<and> drop 11 d \<noteq> [] \<and> list_all isAlnum (drop 11 d))"

section \<open>The database (the schema, src/unnamed/part_001)\<close>

text \<open>
  Each table is the list of its rows, in insertion order. The columns are those that the
  handlers modelled here write or test; \<open>avatar\<close>, \<open>trust_radius\<close>, \<open>joined_at\<close>,
  \<open>last_read_at\<close>, \<open>muted\<close>, \<open>trust_extended_to\<close>, \<open>edited_at\<close> and the \<open>created_at\<close> of
  conversations and invites are left out. The \<open>created_at\<close> of a message is filled by the
  column default \<open>now()\<close> at every insert, so it is never null.

  A primary key is enforced where the database enforces it: an insert of a second row with
  the same key fails, and the handler's \<open>catch\<close> turns the failure into a response with
  status 500, keeping what was written before (the handlers use no transaction). Foreign
  keys are not checked at an insert; where a property needs one, it is a hypothesis.

  Text columns that hold decimal numbers (\<open>max_uses\<close>, \<open>used_count\<close>) are modelled by the
  integer that \<open>parseInt\<close> reads from them. A JSON value is a \<open>json\<close>; its numbers are
  integers here.
\<close>

datatype json =
    JNull
  | JBool bool
  | JNum int
  | JStr string
  | JArr "json list"
  | JObj "(string \<times> json) list"

record conversation =
  c_id :: string
  c_type :: string
  c_name :: "string option"
  c_description :: "string option"
  c_visibility :: string
  c_createdBy :: string
  c_updatedAt :: timestamp
  c_lastMessageAt :: "timestamp option"

record participant =
  p_conversationId :: string
  p_did :: string
  p_role :: string
  p_invitedBy :: "string option"

record message =
  m_id :: string
  m_conversationId :: string
  m_fromDid :: string
  m_content :: json
  m_contentType :: string
  m_replyTo :: "string option"
  m_createdAt :: timestamp
  m_deletedAt :: "timestamp option"

record invite =
  i_id :: string
  i_conversationId :: string
  i_createdBy :: string
  i_forDid :: "string option"
  i_maxUses :: "int option"
  i_usedCount :: int
  i_expiresAt :: "timestamp option"
  i_revokedAt :: "timestamp option"

record db =
  conversations :: "conversation list"
  participants :: "participant list"
  messages :: "message list"
  invites :: "invite list"

text \<open>
  A handler answers \<open>jsonResponse(data, status)\<close> or \<open>errorResponse(message, status)\<close>.
\<close>

datatype 'a response = Json 'a nat | Err string nat

fun is_json :: "'a response \<Rightarrow> bool" where
  "is_json (Json _ _) = True"
| "is_json (Err _ _) = False"

fun status :: "'a response \<Rightarrow> nat" where
  "status (Json _ s) = s"
| "status (Err _ s) = s"

fun payload :: "'a response \<Rightarrow> 'a option" where
  "payload (Json data _) = Some data"
| "payload (Err _ _) = None"

definition findParticipant :: "db \<Rightarrow> string \<Rightarrow> string \<Rightarrow> participant option" where
  "findParticipant d cid who =
     find (\<lambda>p. p_conversationId p = cid \<and> p_did p = who) (participants d)"

definition findConversation :: "db \<Rightarrow> string \<Rightarrow> conversation option" where
  "findConversation d cid = find (\<lambda>c. c_id c = cid) (conversations d)"

definition findMessage :: "db \<Rightarrow> string \<Rightarrow> message option" where
  "findMessage d mid = find (\<lambda>m. m_id m = mid) (messages d)"

definition findInvite :: "db \<Rightarrow> string \<Rightarrow> invite option" where
  "findInvite d iid = find (\<lambda>i. i_id i = iid) (invites d)"

definition insertConversation :: "db \<Rightarrow> conversation \<Rightarrow> db option" where
  "insertConversation d c =
     (if findConversation d (c_id c) \<noteq> None then None
      else Some (d\<lparr>conversations := conversations d @ [c]\<rparr>))"

definition insertParticipant :: "db \<Rightarrow> participant \<Rightarrow> db option" where
  "insertParticipant d p =
     (if findParticipant d (p_conversationId p) (p_did p) \<noteq> None then None
      else Some (d\<lparr>participants := participants d @ [p]\<rparr>))"

definition insertMessage :: "db \<Rightarrow> message \<Rightarrow> db option" where
  "insertMessage d m =
     (if findMessage d (m_id m) \<noteq> None then None
      else Some (d\<lparr>messages := messages d @ [m]\<rparr>))"

definition insertInvite :: "db \<Rightarrow> invite \<Rightarrow> db option" where
  "insertInvite d i =
     (if findInvite d (i_id i) \<noteq> None then None
      else Some (d\<lparr>invites := invites d @ [i]\<rparr>))"

text \<open>
  The system message every membership and lifecycle event appends:
  \<^verbatim>\<open>{ id, conversationId, fromDid, content: { type: 'system', text }, contentType: 'system' }\<close>,
  with \<open>created_at\<close> filled by the column default \<open>now()\<close>.
\<close>

definition systemMessage :: "string \<Rightarrow> string \<Rightarrow> string \<Rightarrow> string \<Rightarrow> timestamp \<Rightarrow> message" where
  "systemMessage mid cid fromDid txt now =
     \<lparr>m_id = mid, m_conversationId = cid, m_fromDid = fromDid,
      m_content = JObj [(''type'', JStr ''system''), (''text'', JStr txt)],
      m_contentType = ''system'', m_replyTo = None, m_createdAt = now, m_deletedAt = None\<rparr>"

section \<open>Participants (src/app/api/conversations/[id]/participants/route.ts)\<close>

text \<open>
  Every handler below starts after \<open>requireAuth\<close> has resolved the caller: \<open>me\<close> is
  \<open>identity.id\<close>. The identifier that \<open>generateId\<close> draws and the clock are arguments.
\<close>

datatype participants_reply = Participant "participant option" | Updated | Removed

definition participants_POST ::
  "string \<Rightarrow> string \<Rightarrow> string \<Rightarrow> string option \<Rightarrow> string \<Rightarrow> timestamp \<Rightarrow> db
     \<Rightarrow> participants_reply response \<times> db" where
  "participants_POST me cid target roleField msgId now d =
     (case findParticipant d cid me of
        None \<Rightarrow> (Err ''Permission denied'' 403, d)
      | Some myParticipant \<Rightarrow>
          if \<not> hasRole (p_role myParticipant) ''admin'' then (Err ''Permission denied'' 403, d)
          else
            let role = (case roleField of None \<Rightarrow> ''member'' | Some r \<Rightarrow> r) in
            if \<not> isValidDid target then (Err ''Invalid DID'' 400, d)
            else if p_role myParticipant \<noteq> ''owner'' \<and> hasRole role (p_role myParticipant)
              then (Err ''Cannot add participant with equal or higher role'' 400, d)
            else if findParticipant d cid target \<noteq> None
              then (Err ''Already a participant'' 409, d)
            else
              (case insertParticipant d
                      \<lparr>p_conversationId = cid, p_did = target, p_role = role,
                       p_invitedBy = Some me\<rparr> of
                 None \<Rightarrow> (Err ''Failed to add participant'' 500, d)
               | Some d1 \<Rightarrow>
                   (case insertMessage d1
                           (systemMessage msgId cid me (me @ '' added '' @ target) now) of
                      None \<Rightarrow> (Err ''Failed to add participant'' 500, d1)
                    | Some d2 \<Rightarrow> (Json (Participant (findParticipant d2 cid target)) 201, d2))))"

definition updateRole :: "db \<Rightarrow> string \<Rightarrow> string \<Rightarrow> string \<Rightarrow> db" where
  "updateRole d cid target role =
     d\<lparr>participants :=
         map (\<lambda>p. if p_conversationId p = cid \<and> p_did p = target then p\<lparr>p_role := role\<rparr> else p)
           (participants d)\<rparr>"

definition participants_PATCH ::
  "string \<Rightarrow> string \<Rightarrow> string \<Rightarrow> string \<Rightarrow> string \<Rightarrow> timestamp \<Rightarrow> db
     \<Rightarrow> participants_reply response \<times> db" where
  "participants_PATCH me cid target role msgId now d =
     (if \<not> isValidDid target then (Err ''Invalid DID'' 400, d)
      else if role \<notin> set [''readonly'', ''member'', ''admin''] then (Err ''Invalid role'' 400, d)
      else
        (case findParticipant d cid me of
           None \<Rightarrow> (Err ''Only the owner can change roles'' 403, d)
         | Some myParticipant \<Rightarrow>
             if p_role myParticipant \<noteq> ''owner''
               then (Err ''Only the owner can change roles'' 403, d)
             else if target = me then (Err ''Cannot change your own role'' 400, d)
             else
               let d1 = updateRole d cid target role in
               (case insertMessage d1
                       (systemMessage msgId cid me
                          (me @ '' changed '' @ target @ [CHR 0x27] @ ''s role to '' @ role) now) of
                  None \<Rightarrow> (Err ''Failed to update participant'' 500, d1)
                | Some d2 \<Rightarrow> (Json Updated 200, d2))))"

definition deleteParticipant :: "db \<Rightarrow> string \<Rightarrow> string \<Rightarrow> db" where
  "deleteParticipant d cid target =
     d\<lparr>participants :=
         filter (\<lambda>p. \<not> (p_conversationId p = cid \<and> p_did p = target)) (participants d)\<rparr>"

text \<open>
  \<open>didParam\<close> is \<open>url.searchParams.get('did')\<close>: \<open>None\<close> when the query has no \<open>did\<close>.
\<close>

definition participants_DELETE ::
  "string \<Rightarrow> string \<Rightarrow> string option \<Rightarrow> string \<Rightarrow> timestamp \<Rightarrow> db
     \<Rightarrow> participants_reply response \<times> db" where
  "participants_DELETE me cid didParam msgId now d =
     (case didParam of
        None \<Rightarrow> (Err ''Invalid or missing DID'' 400, d)
      | Some target \<Rightarrow>
          if target = [] \<or> \<not> isValidDid target then (Err ''Invalid or missing DID'' 400, d)
          else
            (case findParticipant d cid me of
               None \<Rightarrow> (Err ''Conversation not found'' 404, d)
             | Some myParticipant \<Rightarrow>
                 let isSelf = (target = me) in
                 if \<not> isSelf \<and> \<not> hasRole (p_role myParticipant) ''admin''
                   then (Err ''Permission denied'' 403, d)
                 else if isSelf \<and> p_role myParticipant = ''owner''
                   then (Err ''Owner must transfer ownership before leaving'' 400, d)
                 else
                   (case findParticipant d cid target of
                      None \<Rightarrow> (Err ''Participant not found'' 404, d)
                    | Some targetParticipant \<Rightarrow>
                        if \<not> isSelf \<and> hasRole (p_role targetParticipant) (p_role myParticipant)
                          then (Err ''Cannot remove participant with equal or higher role'' 400, d)
                        else
                          let d1 = deleteParticipant d cid target;
                              action = (if isSelf then ''left the group''
                                        else ''removed '' @ target) in
                          (case insertMessage d1
                                  (systemMessage msgId cid me (me @ '' '' @ action) now) of
                             None \<Rightarrow> (Err ''Failed to remove participant'' 500, d1)
                           | Some d2 \<Rightarrow> (Json Removed 200, d2)))))"

section \<open>Conversations (src/app/api/conversations/route.ts)\<close>

text \<open>
  \<open>v || null\<close> on an optional string: an absent, null or empty value gives null.
\<close>

definition orNull :: "string option \<Rightarrow> string option" where
  "orNull v = (case v of None \<Rightarrow> None | Some s \<Rightarrow> if s = [] then None else Some s)"

text \<open>
  The rows of the join of \<open>conversations\<close> and \<open>participants\<close> that the duplicate check
  selects: direct conversations, with the participant rows of the requester or the target.
\<close>

definition directRows :: "db \<Rightarrow> string \<Rightarrow> string \<Rightarrow> (conversation \<times> participant) list" where
  "directRows d me otherDid =
     [(c, p). c \<leftarrow> conversations d, p \<leftarrow> participants d,
        p_conversationId p = c_id c,
        c_type c = ''direct'' \<and> (p_did p = me \<or> p_did p = otherDid)]"

text \<open>
  \<open>convCounts\<close>: one entry per conversation id, in the order the ids first occur, holding the
  set of the DIDs seen for it.
\<close>

fun addRow :: "(string \<times> string set) list \<Rightarrow> string \<Rightarrow> string \<Rightarrow> (string \<times> string set) list" where
  "addRow [] k v = [(k, {v})]"
| "addRow ((k', s) # rest) k v =
     (if k' = k then (k', insert v s) # rest else (k', s) # addRow rest k v)"

definition convCounts :: "(conversation \<times> participant) list \<Rightarrow> (string \<times> string set) list" where
  "convCounts rows = foldl (\<lambda>acc (c, p). addRow acc (c_id c) (p_did p)) [] rows"

definition existingDirect :: "db \<Rightarrow> string \<Rightarrow> string \<Rightarrow> string option" where
  "existingDirect d me otherDid =
     map_option fst
       (find (\<lambda>(convId, dids). me \<in> dids \<and> otherDid \<in> dids)
          (convCounts (directRows d me otherDid)))"

record create_body =
  cb_type :: "string option"
  cb_name :: "string option"
  cb_description :: "string option"
  cb_participantDids :: "string list option"
  cb_visibility :: "string option option"

datatype conversations_reply =
    Created "conversation option"
  | Existing "conversation option"

text \<open>
  The field \<open>visibility\<close> of the body is absent (\<open>None\<close>), null (\<open>Some None\<close>) or a string.
  The destructuring default \<open>'private'\<close> stands in for an absent field only; a null goes
  to the column as it is (\<open>visibilityOf\<close> gives \<open>None\<close> then).
\<close>

definition visibilityOf :: "string option option \<Rightarrow> string option" where
  "visibilityOf v = (case v of None \<Rightarrow> Some ''private'' | Some x \<Rightarrow> x)"

text \<open>The rows that a creation inserts.\<close>

definition newConversation ::
  "string \<Rightarrow> string \<Rightarrow> create_body \<Rightarrow> string \<Rightarrow> string \<Rightarrow> timestamp \<Rightarrow> conversation" where
  "newConversation me type body visibility conversationId now =
     \<lparr>c_id = conversationId, c_type = type, c_name = orNull (cb_name body),
      c_description = orNull (cb_description body),
      c_visibility = visibility,
      c_createdBy = me, c_updatedAt = now, c_lastMessageAt = None\<rparr>"

definition ownerRow :: "string \<Rightarrow> string \<Rightarrow> participant" where
  "ownerRow conversationId me =
     \<lparr>p_conversationId = conversationId, p_did = me, p_role = ''owner'', p_invitedBy = None\<rparr>"

definition memberRow :: "string \<Rightarrow> string \<Rightarrow> string \<Rightarrow> participant" where
  "memberRow conversationId me x =
     \<lparr>p_conversationId = conversationId, p_did = x, p_role = ''member'', p_invitedBy = Some me\<rparr>"

text \<open>
  The loop that adds the other participants as members. \<open>Inl\<close> carries the database as it is
  when an insert throws.
\<close>

fun insertMembers :: "db \<Rightarrow> string \<Rightarrow> string \<Rightarrow> string list \<Rightarrow> db + db" where
  "insertMembers d cid me [] = Inr d"
| "insertMembers d cid me (x # xs) =
     (if x \<noteq> me then
        (case insertParticipant d (memberRow cid me x) of
           None \<Rightarrow> Inl d
         | Some d1 \<Rightarrow> insertMembers d1 cid me xs)
      else insertMembers d cid me xs)"

text \<open>
  The column \<open>visibility\<close> is \<open>NOT NULL\<close>: the insert of a conversation with a null
  visibility fails, as the insert of a second conversation with the same id does.
\<close>

definition createConversation ::
  "string \<Rightarrow> string \<Rightarrow> create_body \<Rightarrow> string list \<Rightarrow> string \<Rightarrow> string \<Rightarrow> timestamp \<Rightarrow> db
     \<Rightarrow> conversations_reply response \<times> db" where
  "createConversation me type body participantDids conversationId msgId now d =
     (case visibilityOf (cb_visibility body) of
        None \<Rightarrow> (Err ''Failed to create conversation'' 500, d)
      | Some visibility \<Rightarrow>
     (case insertConversation d (newConversation me type body visibility conversationId now) of
        None \<Rightarrow> (Err ''Failed to create conversation'' 500, d)
      | Some d1 \<Rightarrow>
          (case insertParticipant d1 (ownerRow conversationId me) of
             None \<Rightarrow> (Err ''Failed to create conversation'' 500, d1)
           | Some d2 \<Rightarrow>
               (case insertMembers d2 conversationId me participantDids of
                  Inl d3 \<Rightarrow> (Err ''Failed to create conversation'' 500, d3)
                | Inr d3 \<Rightarrow>
                    if type = ''group'' then
                      (case insertMessage d3
                              (systemMessage msgId conversationId me
                                 (me @ '' created the group'') now) of
                         None \<Rightarrow> (Err ''Failed to create conversation'' 500, d3)
                       | Some d4 \<Rightarrow> (Json (Created (findConversation d4 conversationId)) 201, d4))
                    else (Json (Created (findConversation d3 conversationId)) 201, d3)))))"

definition conversations_POST ::
  "string \<Rightarrow> create_body \<Rightarrow> string \<Rightarrow> string \<Rightarrow> timestamp \<Rightarrow> db
     \<Rightarrow> conversations_reply response \<times> db" where
  "conversations_POST me body conversationId msgId now d =
     (case cb_type body of
        None \<Rightarrow> (Err ''type must be \"direct\" or \"group\"'' 400, d)
      | Some type \<Rightarrow>
          if type = [] \<or> type \<notin> set [''direct'', ''group'']
            then (Err ''type must be \"direct\" or \"group\"'' 400, d)
          else
            (case cb_participantDids body of
               None \<Rightarrow> (Err ''participantDids is required'' 400, d)
             | Some participantDids \<Rightarrow>
                 if length participantDids = 0 then (Err ''participantDids is required'' 400, d)
                 else
                   (case find (\<lambda>x. \<not> isValidDid x) participantDids of
                      Some bad \<Rightarrow> (Err (''Invalid DID: '' @ bad) 400, d)
                    | None \<Rightarrow>
                        if type = ''direct'' \<and> length participantDids \<noteq> 1
                          then (Err ''Direct conversations must have exactly one other participant'' 400, d)
                        else
                          (case (if type = ''direct''
                                 then existingDirect d me (participantDids ! 0) else None) of
                             Some convId \<Rightarrow> (Json (Existing (findConversation d convId)) 200, d)
                           | None \<Rightarrow>
                               if type = ''group'' \<and> orNull (cb_name body) = None
                                 then (Err ''Group conversations require a name'' 400, d)
                               else createConversation me type body participantDids
                                      conversationId msgId now d))))"

section \<open>One conversation (src/app/api/conversations/[id]/route.ts)\<close>

text \<open>
  A field of the PATCH body is absent (\<open>None\<close>), null (\<open>Some None\<close>) or a string. The column
  \<open>visibility\<close> is \<open>NOT NULL\<close>: writing null to it makes the update fail.
\<close>

definition applyUpdates ::
  "string option option \<Rightarrow> string option option \<Rightarrow> string \<Rightarrow> timestamp \<Rightarrow> conversation \<Rightarrow> conversation" where
  "applyUpdates name description visibility now c =
     c\<lparr>c_updatedAt := now,
       c_name := (case name of None \<Rightarrow> c_name c | Some v \<Rightarrow> v),
       c_description := (case description of None \<Rightarrow> c_description c | Some v \<Rightarrow> v),
       c_visibility := visibility\<rparr>"

definition conversation_PATCH ::
  "string \<Rightarrow> string \<Rightarrow> string option option \<Rightarrow> string option option \<Rightarrow> string option option
     \<Rightarrow> timestamp \<Rightarrow> db \<Rightarrow> conversation option response \<times> db" where
  "conversation_PATCH me conversationId name description visibility now d =
     (case findParticipant d conversationId me of
        None \<Rightarrow> (Err ''Permission denied'' 403, d)
      | Some participant \<Rightarrow>
          if \<not> hasRole (p_role participant) ''admin'' then (Err ''Permission denied'' 403, d)
          else if visibility = Some None then (Err ''Failed to update conversation'' 500, d)
          else
            let d1 = d\<lparr>conversations :=
                        map (\<lambda>c. if c_id c = conversationId
                                  then applyUpdates name description
                                         (case visibility of Some (Some v) \<Rightarrow> v | _ \<Rightarrow> c_visibility c)
                                         now c
                                  else c)
                          (conversations d)\<rparr>
            in (Json (findConversation d1 conversationId) 200, d1))"

section \<open>Messages (src/app/api/conversations/[id]/route.ts, from line 151)\<close>

text \<open>
  A JavaScript number as far as the handler needs it: an integer, or \<open>NaN\<close>.
\<close>

datatype jsnum = NaN | Num int

text \<open>
  The query \<open>limit\<close> parameter after \<open>parseInt\<close>: \<open>None\<close> when the parameter is absent or
  empty (the handler then reads \<open>'50'\<close>), \<open>Some (Num n)\<close> when \<open>parseInt\<close> reads the
  integer \<open>n\<close>, and \<open>Some NaN\<close> when it reads no number. \<open>Math.min\<close> of \<open>NaN\<close> and 100 is
  \<open>NaN\<close>.
\<close>

definition pageLimit :: "jsnum option \<Rightarrow> jsnum" where
  "pageLimit limitParam =
     (case (case limitParam of None \<Rightarrow> Num 50 | Some x \<Rightarrow> x) of
        NaN \<Rightarrow> NaN
      | Num n \<Rightarrow> Num (min n 100))"

text \<open>
  \<open>.limit(limit)\<close>: the query builder writes a \<open>LIMIT\<close> into the query only for a number
  that is not negative; for a negative number and for \<open>NaN\<close> the query has no \<open>LIMIT\<close> and
  returns every row it selects.
\<close>

definition limitRows :: "jsnum \<Rightarrow> 'a list \<Rightarrow> 'a list" where
  "limitRows limit rows =
     (case limit of NaN \<Rightarrow> rows | Num n \<Rightarrow> if 0 \<le> n then take (nat n) rows else rows)"

text \<open>\<open>result.length === limit\<close>; no length equals \<open>NaN\<close>.\<close>

definition lengthIs :: "'a list \<Rightarrow> jsnum \<Rightarrow> bool" where
  "lengthIs result limit = (case limit of NaN \<Rightarrow> False | Num n \<Rightarrow> int (length result) = n)"

text \<open>
  \<open>ORDER BY created_at DESC\<close>: rows in descending order of \<open>created_at\<close>. The database
  leaves the order of rows with equal \<open>created_at\<close> open; the model takes one such order.
\<close>

definition orderByCreatedAtDesc :: "message list \<Rightarrow> message list" where
  "orderByCreatedAtDesc ms = rev (sort_key m_createdAt ms)"

text \<open>
  The cursor: the creation time of the message that \<open>before\<close> names, when \<open>before\<close> is
  given and a message with that id exists (in any conversation, deleted or not).
\<close>

definition cursorTime :: "db \<Rightarrow> string option \<Rightarrow> timestamp option" where
  "cursorTime d before =
     (case before of
        None \<Rightarrow> None
      | Some b \<Rightarrow> if b = [] then None else map_option m_createdAt (findMessage d b))"

definition selectMessages :: "db \<Rightarrow> string \<Rightarrow> timestamp option \<Rightarrow> message list" where
  "selectMessages d conversationId cursor =
     filter (\<lambda>m. m_conversationId m = conversationId \<and> m_deletedAt m = None \<and>
                  (case cursor of None \<Rightarrow> True | Some t \<Rightarrow> m_createdAt m < t))
       (messages d)"

record page =
  pg_messages :: "message list"
  pg_hasMore :: bool

definition messages_GET ::
  "string \<Rightarrow> string \<Rightarrow> jsnum option \<Rightarrow> string option \<Rightarrow> db \<Rightarrow> page response" where
  "messages_GET me conversationId limitParam before d =
     (let limit = pageLimit limitParam in
      case findParticipant d conversationId me of
        None \<Rightarrow> Err ''Conversation not found or access denied'' 404
      | Some participant \<Rightarrow>
          let result = limitRows limit
                         (orderByCreatedAtDesc
                            (selectMessages d conversationId (cursorTime d before)))
          in Json \<lparr>pg_messages = rev result, pg_hasMore = lengthIs result limit\<rparr> 200)"

text \<open>
  A JSON object is the list of its members in the order of the text; a later member with
  the same name replaces an earlier one. Reading a property of an array by a name that is
  not an index gives \<open>undefined\<close>.
\<close>

fun getProperty :: "json \<Rightarrow> string \<Rightarrow> json option" where
  "getProperty (JObj kvs) k = map_of (rev kvs) k"
| "getProperty _ k = None"

text \<open>
  \<open>content && typeof content === 'object'\<close> holds of an object or an array, and of no
  other JSON value; \<open>asObject\<close> gives the value then.
\<close>

fun asObject :: "json option \<Rightarrow> json option" where
  "asObject (Some (JObj kvs)) = Some (JObj kvs)"
| "asObject (Some (JArr xs)) = Some (JArr xs)"
| "asObject _ = None"

definition touchLastMessage :: "db \<Rightarrow> string \<Rightarrow> timestamp \<Rightarrow> db" where
  "touchLastMessage d conversationId now =
     d\<lparr>conversations :=
         map (\<lambda>c. if c_id c = conversationId
                   then c\<lparr>c_lastMessageAt := Some now, c_updatedAt := now\<rparr> else c)
           (conversations d)\<rparr>"

definition messages_POST ::
  "string \<Rightarrow> string \<Rightarrow> json option \<Rightarrow> string option \<Rightarrow> string \<Rightarrow> timestamp \<Rightarrow> db
     \<Rightarrow> message option response \<times> db" where
  "messages_POST me conversationId contentField replyTo messageId now d =
     (case findParticipant d conversationId me of
        None \<Rightarrow> (Err ''Conversation not found or access denied'' 404, d)
      | Some participant \<Rightarrow>
          if p_role participant = ''readonly''
            then (Err ''You do not have permission to send messages'' 403, d)
          else
            (case asObject contentField of
               None \<Rightarrow> (Err ''content is required and must be an object'' 400, d)
             | Some content \<Rightarrow>
                 let contentType = (if getProperty content ''type'' = Some (JStr ''system'')
                                    then ''system'' else ''text'') in
                 if orNull replyTo \<noteq> None \<and>
                    find (\<lambda>m. Some (m_id m) = replyTo \<and> m_conversationId m = conversationId)
                      (messages d) = None
                   then (Err ''Reply message not found'' 404, d)
                 else
                   (case insertMessage d
                           \<lparr>m_id = messageId, m_conversationId = conversationId, m_fromDid = me,
                            m_content = content, m_contentType = contentType,
                            m_replyTo = orNull replyTo, m_createdAt = now, m_deletedAt = None\<rparr> of
                      None \<Rightarrow> (Err ''Failed to send message'' 500, d)
                    | Some d1 \<Rightarrow>
                        let d2 = touchLastMessage d1 conversationId now
                        in (Json (findMessage d2 messageId) 201, d2))))"

section \<open>Invites (src/app/api/conversations/[id]/route.ts, from line 324, and src/app/api/invites/[id]/route.ts)\<close>

text \<open>
  \<open>expiresInHours\<close> and \<open>maxUses\<close> are the numbers of the request body (\<open>None\<close> when
  absent). The redemption link of the reply is left out: it only prefixes the invite id.
\<close>

definition invites_POST ::
  "string \<Rightarrow> string option \<Rightarrow> string option \<Rightarrow> int option \<Rightarrow> int option \<Rightarrow> string \<Rightarrow> timestamp
     \<Rightarrow> db \<Rightarrow> invite option response \<times> db" where
  "invites_POST me conversationIdField forDid maxUses expiresInHours inviteId now d =
     (case orNull conversationIdField of
        None \<Rightarrow> (Err ''conversationId is required'' 400, d)
      | Some conversationId \<Rightarrow>
          (case findParticipant d conversationId me of
             None \<Rightarrow> (Err ''Permission denied'' 403, d)
           | Some participant \<Rightarrow>
               if \<not> hasRole (p_role participant) ''admin'' then (Err ''Permission denied'' 403, d)
               else
                 let expiresAt =
                       (case expiresInHours of
                          None \<Rightarrow> None
                        | Some h \<Rightarrow> if h = 0 then None else Some (now + h * 60 * 60 * 1000))
                 in
                 (case insertInvite d
                         \<lparr>i_id = inviteId, i_conversationId = conversationId, i_createdBy = me,
                          i_forDid = orNull forDid, i_maxUses = maxUses, i_usedCount = 0,
                          i_expiresAt = expiresAt, i_revokedAt = None\<rparr> of
                    None \<Rightarrow> (Err ''Failed to create invite'' 500, d)
                  | Some d1 \<Rightarrow> (Json (findInvite d1 inviteId) 201, d1))))"

text \<open>
  The three checks that preview and redemption both make, in the order of the source;
  \<open>None\<close> when the invite passes all of them.
\<close>

definition inviteGone :: "invite \<Rightarrow> timestamp \<Rightarrow> string option" where
  "inviteGone invite now =
     (if i_revokedAt invite \<noteq> None then Some ''Invite has been revoked''
      else if (case i_expiresAt invite of None \<Rightarrow> False | Some e \<Rightarrow> e < now)
        then Some ''Invite has expired''
      else if (case i_maxUses invite of None \<Rightarrow> False | Some m \<Rightarrow> i_usedCount invite \<ge> m)
        then Some ''Invite has reached maximum uses''
      else None)"

record preview =
  pv_id :: string
  pv_conversationId :: string
  pv_forDid :: "string option"
  pv_expiresAt :: "timestamp option"
  pv_type :: string
  pv_name :: "string option"
  pv_description :: "string option"
  pv_participantCount :: nat

definition invite_GET :: "string \<Rightarrow> timestamp \<Rightarrow> db \<Rightarrow> preview response" where
  "invite_GET inviteId now d =
     (case findInvite d inviteId of
        None \<Rightarrow> Err ''Invite not found'' 404
      | Some invite \<Rightarrow>
          (case inviteGone invite now of
             Some reason \<Rightarrow> Err reason 410
           | None \<Rightarrow>
               (case findConversation d (i_conversationId invite) of
                  None \<Rightarrow> Err ''Conversation not found'' 404
                | Some conversation \<Rightarrow>
                    Json \<lparr>pv_id = i_id invite, pv_conversationId = i_conversationId invite,
                          pv_forDid = i_forDid invite, pv_expiresAt = i_expiresAt invite,
                          pv_type = c_type conversation, pv_name = c_name conversation,
                          pv_description = c_description conversation,
                          pv_participantCount =
                            length (filter (\<lambda>p. p_conversationId p = i_conversationId invite)
                                      (participants d))\<rparr> 200)))"

datatype redeem_reply = AlreadyMember string | Joined string

definition setUsedCount :: "db \<Rightarrow> string \<Rightarrow> int \<Rightarrow> db" where
  "setUsedCount d inviteId n =
     d\<lparr>invites := map (\<lambda>i. if i_id i = inviteId then i\<lparr>i_usedCount := n\<rparr> else i) (invites d)\<rparr>"

definition invite_POST ::
  "string \<Rightarrow> string \<Rightarrow> string \<Rightarrow> timestamp \<Rightarrow> db \<Rightarrow> redeem_reply response \<times> db" where
  "invite_POST me inviteId msgId now d =
     (case findInvite d inviteId of
        None \<Rightarrow> (Err ''Invite not found'' 404, d)
      | Some invite \<Rightarrow>
          (case inviteGone invite now of
             Some reason \<Rightarrow> (Err reason 410, d)
           | None \<Rightarrow>
               if orNull (i_forDid invite) \<noteq> None \<and> i_forDid invite \<noteq> Some me
                 then (Err ''This invite is for a different user'' 403, d)
               else if findParticipant d (i_conversationId invite) me \<noteq> None
                 then (Json (AlreadyMember (i_conversationId invite)) 200, d)
               else
                 (case insertParticipant d
                         \<lparr>p_conversationId = i_conversationId invite, p_did = me,
                          p_role = ''member'', p_invitedBy = Some (i_createdBy invite)\<rparr> of
                    None \<Rightarrow> (Err ''Failed to accept invite'' 500, d)
                  | Some d1 \<Rightarrow>
                      let d2 = setUsedCount d1 inviteId (i_usedCount invite + 1) in
                      (case insertMessage d2
                              (systemMessage msgId (i_conversationId invite) me
                                 (me @ '' joined via invite'') now) of
                         None \<Rightarrow> (Err ''Failed to accept invite'' 500, d2)
                       | Some d3 \<Rightarrow> (Json (Joined (i_conversationId invite)) 200, d3)))))"

section \<open>Validity of an invite, in the words of the specification\<close>

text \<open>
  An invite is valid iff \<open>revokedAt\<close> is null, and \<open>expiresAt\<close> is null or the current time is
  strictly before it, and \<open>maxUses\<close> is null or \<open>usedCount < maxUses\<close>.
\<close>

definition validAsSpecified :: "invite \<Rightarrow> timestamp \<Rightarrow> bool" where
  "validAsSpecified i now =
     (i_revokedAt i = None \<and>
      (case i_expiresAt i of None \<Rightarrow> True | Some e \<Rightarrow> now < e) \<and>
      (case i_maxUses i of None \<Rightarrow> True | Some m \<Rightarrow> i_usedCount i < m))"


section \<open>Direct conversations between two identities\<close>

text \<open>
  \<open>directBetween d k a b\<close>: the conversation with the id \<open>k\<close> is a direct conversation, and
  both \<open>a\<close> and \<open>b\<close> are participants of it.
\<close>

definition directBetween :: "db \<Rightarrow> string \<Rightarrow> string \<Rightarrow> string \<Rightarrow> bool" where
  "directBetween d k a b =
     ((\<exists>c \<in> set (conversations d). c_id c = k \<and> c_type c = ''direct'') \<and>
      findParticipant d k a \<noteq> None \<and> findParticipant d k b \<noteq> None)"

text \<open>
  An id that \<open>generateId\<close> may draw for a new conversation: no conversation has it, and (by
  the foreign key of \<open>participants\<close>) no participant row refers to it.
\<close>

definition unusedConversationId :: "db \<Rightarrow> string \<Rightarrow> bool" where
  "unusedConversationId d k =
     (findConversation d k = None \<and> (\<forall>p \<in> set (participants d). p_conversationId p \<noteq> k))"

text \<open>The set that \<open>convCounts\<close> holds for a conversation id; empty when it has no entry.\<close>

definition didsFor :: "(string \<times> string set) list \<Rightarrow> string \<Rightarrow> string set" where
  "didsFor acc k = (case map_of acc k of None \<Rightarrow> {} | Some s \<Rightarrow> s)"

text \<open>The body of a request for a direct conversation with \<open>x\<close>.\<close>

definition directBody :: "string \<Rightarrow> create_body" where
  "directBody x =
     \<lparr>cb_type = Some ''direct'', cb_name = None, cb_description = None,
      cb_participantDids = Some [x], cb_visibility = None\<rparr>"

section \<open>A sample database\<close>

text \<open>
  A group \<open>conv_launch\<close> (owner alice, admin bob, members carol and dave) with four messages
  created at the times 1000, 2000, 3000 and 4000, a direct conversation \<open>conv_ab\<close> between
  alice and bob, and five invites to the group: an open one, one bound to erin, one that
  expires at the time 9000, a revoked one and one whose single use is taken.
\<close>

definition alice :: string where "alice = ''did:imajin:alice''"
definition bob :: string where "bob = ''did:imajin:bob''"
definition carol :: string where "carol = ''did:imajin:carol''"
definition dave :: string where "dave = ''did:imajin:dave''"
definition erin :: string where "erin = ''did:imajin:erin''"

definition sampleMessage :: "string \<Rightarrow> timestamp \<Rightarrow> message" where
  "sampleMessage mid t =
     \<lparr>m_id = mid, m_conversationId = ''conv_launch'', m_fromDid = alice,
      m_content = JObj [(''encrypted'', JStr ''AAAA''), (''nonce'', JStr ''BBBB'')],
      m_contentType = ''text'', m_replyTo = None, m_createdAt = t, m_deletedAt = None\<rparr>"

definition sampleInvite :: "string \<Rightarrow> string option \<Rightarrow> timestamp option \<Rightarrow> invite" where
  "sampleInvite iid forDid expiresAt =
     \<lparr>i_id = iid, i_conversationId = ''conv_launch'', i_createdBy = alice,
      i_forDid = forDid, i_maxUses = None, i_usedCount = 0,
      i_expiresAt = expiresAt, i_revokedAt = None\<rparr>"

definition sampleDb :: db where
  "sampleDb =
     \<lparr>conversations =
        [\<lparr>c_id = ''conv_launch'', c_type = ''group'', c_name = Some ''Launch'',
          c_description = None, c_visibility = ''private'', c_createdBy = alice,
          c_updatedAt = 4000, c_lastMessageAt = Some 4000\<rparr>,
         \<lparr>c_id = ''conv_ab'', c_type = ''direct'', c_name = None,
          c_description = None, c_visibility = ''private'', c_createdBy = alice,
          c_updatedAt = 500, c_lastMessageAt = None\<rparr>],
      participants =
        [\<lparr>p_conversationId = ''conv_launch'', p_did = alice, p_role = ''owner'', p_invitedBy = None\<rparr>,
         \<lparr>p_conversationId = ''conv_launch'', p_did = bob, p_role = ''admin'', p_invitedBy = Some alice\<rparr>,
         \<lparr>p_conversationId = ''conv_launch'', p_did = carol, p_role = ''member'', p_invitedBy = Some alice\<rparr>,
         \<lparr>p_conversationId = ''conv_launch'', p_did = dave, p_role = ''member'', p_invitedBy = Some alice\<rparr>,
         \<lparr>p_conversationId = ''conv_ab'', p_did = alice, p_role = ''owner'', p_invitedBy = None\<rparr>,
         \<lparr>p_conversationId = ''conv_ab'', p_did = bob, p_role = ''member'', p_invitedBy = Some alice\<rparr>],
      messages =
        [sampleMessage ''msg_1'' 1000, sampleMessage ''msg_2'' 2000,
         sampleMessage ''msg_3'' 3000, sampleMessage ''msg_4'' 4000],
      invites =
        [sampleInvite ''inv_open'' None None,
         sampleInvite ''inv_erin'' (Some erin) None,
         sampleInvite ''inv_9000'' None (Some 9000),
         (sampleInvite ''inv_revoked'' None (Some 50))\<lparr>i_revokedAt := Some 100\<rparr>,
         (sampleInvite ''inv_full'' None None)\<lparr>i_maxUses := Some 1, i_usedCount := 1\<rparr>]\<rparr>"

text \<open>
  The sample database with 101 messages in the group instead of four, created at the times
  0 to 100.
\<close>

definition manyMessages :: "message list" where
  "manyMessages = map (\<lambda>i. sampleMessage (replicate (Suc i) CHR ''m'') (int i)) [0..<101]"

definition bigDb :: db where
  "bigDb = sampleDb\<lparr>messages := manyMessages\<rparr>"

text \<open>The participant rows of a conversation, and those among them with the role owner.\<close>

definition participantsOf :: "db \<Rightarrow> string \<Rightarrow> participant list" where
  "participantsOf d cid = filter (\<lambda>p. p_conversationId p = cid) (participants d)"

definition ownersOf :: "db \<Rightarrow> string \<Rightarrow> participant list" where
  "ownersOf d cid = filter (\<lambda>p. p_role p = ''owner'') (participantsOf d cid)"

section \<open>Properties of the role hierarchy\<close>

lemma indexOf_from_lower: "x \<in> set ys \<Longrightarrow> i \<le> indexOf_from ys x i"
proof (induction ys arbitrary: i)
  case Nil
  then show ?case by simp
next
  case (Cons y ys)
  show ?case
  proof (cases "y = x")
    case True
    then show ?thesis by simp
  next
    case False
    with Cons.prems have "x \<in> set ys" by simp
    from Cons.IH [OF this, of "i + 1"] False show ?thesis by simp
  qed
qed

lemma indexOf_from_absent: "x \<notin> set ys \<Longrightarrow> indexOf_from ys x i = - 1"
  by (induction ys arbitrary: i) auto

lemma indexOf_absent: "x \<notin> set ys \<Longrightarrow> indexOf ys x = - 1"
  by (simp add: indexOf_def indexOf_from_absent)

lemma indexOf_ge_minus_one: "- 1 \<le> indexOf ys x"
proof (cases "x \<in> set ys")
  case True
  from indexOf_from_lower [OF this, of 0] show ?thesis by (simp add: indexOf_def)
next
  case False
  then show ?thesis by (simp add: indexOf_absent)
qed

lemma indexOf_hierarchy [simp]:
  "indexOf hierarchy ''readonly'' = 0"
  "indexOf hierarchy ''member'' = 1"
  "indexOf hierarchy ''admin'' = 2"
  "indexOf hierarchy ''owner'' = 3"
  by (simp_all add: indexOf_def hierarchy_def)

lemma hasRole_owner_iff: "hasRole r ''owner'' \<longleftrightarrow> r = ''owner''"
  by (auto simp: hasRole_def indexOf_def hierarchy_def)

lemma hasRole_any_owner: "hasRole ''owner'' r"
  by (simp add: hasRole_def indexOf_def hierarchy_def)

text \<open>
  Claim C10. A role string outside the hierarchy has rank \<open>-1\<close>; so \<open>hasRole u x\<close> is true
  for every user role \<open>u\<close> when the required role \<open>x\<close> is not in the hierarchy, and
  \<open>hasRole u ''readonly''\<close> is false for every \<open>u\<close> that is not in the hierarchy. The
  function compares the strings it is given and rejects none.
\<close>

theorem hasRole_unrecognized:
  "(r \<notin> set hierarchy \<longrightarrow> indexOf hierarchy r = - 1) \<and>
   (x \<notin> set hierarchy \<longrightarrow> hasRole u x) \<and>
   (u \<notin> set hierarchy \<longrightarrow> \<not> hasRole u ''readonly'')"
proof (intro conjI impI)
  assume "r \<notin> set hierarchy"
  then show "indexOf hierarchy r = - 1" by (rule indexOf_absent)
next
  assume "x \<notin> set hierarchy"
  then have "indexOf hierarchy x = - 1" by (rule indexOf_absent)
  with indexOf_ge_minus_one [of hierarchy u] show "hasRole u x"
    by (simp add: hasRole_def)
next
  assume "u \<notin> set hierarchy"
  then have "indexOf hierarchy u = - 1" by (rule indexOf_absent)
  then show "\<not> hasRole u ''readonly''"
    by (simp add: hasRole_def)
qed

theorem hasRole_unrecognized_witness:
  "''superuser'' \<notin> set hierarchy \<and> indexOf hierarchy ''superuser'' = - 1 \<and>
   hasRole ''readonly'' ''superuser'' \<and> hasRole ''bogus'' ''superuser'' \<and>
   \<not> hasRole ''superuser'' ''readonly''"
proof -
  have h: "''superuser'' \<notin> set hierarchy" by (simp add: hierarchy_def)
  from h hasRole_unrecognized [of "''superuser''" "''superuser''" "''readonly''"]
    hasRole_unrecognized [of "''superuser''" "''superuser''" "''bogus''"]
    hasRole_unrecognized [of "''superuser''" "''superuser''" "''superuser''"]
  show ?thesis by blast
qed

section \<open>Evaluation on the sample database\<close>

lemmas sample_defs =
  sampleDb_def alice_def bob_def carol_def dave_def erin_def sampleMessage_def sampleInvite_def

lemma isValidDid_sample:
  "isValidDid alice" "isValidDid bob" "isValidDid carol" "isValidDid dave" "isValidDid erin"
  by (simp_all add: isValidDid_def isAlnum_def sample_defs)

lemma sample_distinct:
  "alice \<noteq> bob" "alice \<noteq> carol" "carol \<noteq> dave" "bob \<noteq> carol" "alice \<noteq> erin"
  "dave \<noteq> carol" "carol \<noteq> bob" "bob \<noteq> alice"
  by (simp_all add: sample_defs)

lemma findParticipant_sample:
  "findParticipant sampleDb ''conv_launch'' alice =
     Some \<lparr>p_conversationId = ''conv_launch'', p_did = alice, p_role = ''owner'', p_invitedBy = None\<rparr>"
  "findParticipant sampleDb ''conv_launch'' bob =
     Some \<lparr>p_conversationId = ''conv_launch'', p_did = bob, p_role = ''admin'', p_invitedBy = Some alice\<rparr>"
  "findParticipant sampleDb ''conv_launch'' carol =
     Some \<lparr>p_conversationId = ''conv_launch'', p_did = carol, p_role = ''member'', p_invitedBy = Some alice\<rparr>"
  "findParticipant sampleDb ''conv_launch'' dave =
     Some \<lparr>p_conversationId = ''conv_launch'', p_did = dave, p_role = ''member'', p_invitedBy = Some alice\<rparr>"
  "findParticipant sampleDb ''conv_launch'' erin = None"
  "findParticipant sampleDb ''conv_ab'' alice =
     Some \<lparr>p_conversationId = ''conv_ab'', p_did = alice, p_role = ''owner'', p_invitedBy = None\<rparr>"
  "findParticipant sampleDb ''conv_ab'' bob =
     Some \<lparr>p_conversationId = ''conv_ab'', p_did = bob, p_role = ''member'', p_invitedBy = Some alice\<rparr>"
  by (simp_all add: findParticipant_def sample_defs)

lemma sample_message_ids:
  "m_id ` set (messages sampleDb) = {''msg_1'', ''msg_2'', ''msg_3'', ''msg_4''}"
  by (simp add: sample_defs)

lemma sample_fresh_message: "''msg_5'' \<notin> m_id ` set (messages sampleDb)"
  by (simp add: sample_message_ids)

section \<open>Removing a participant\<close>

lemma isValidDid_nonempty: "isValidDid t \<Longrightarrow> t \<noteq> []"
  by (auto simp: isValidDid_def)

lemma findParticipant_delete_same:
  "findParticipant (deleteParticipant d cid t) cid t = None"
  by (simp add: findParticipant_def deleteParticipant_def find_None_iff)

lemma messages_deleteParticipant: "messages (deleteParticipant d cid t) = messages d"
  by (simp add: deleteParticipant_def)

lemma insertMessage_fresh:
  assumes "m_id m \<notin> m_id ` set (messages d)"
  shows "insertMessage d m = Some (d\<lparr>messages := messages d @ [m]\<rparr>)"
proof -
  from assms have "\<forall>x\<in>set (messages d). m_id x \<noteq> m_id m" by (metis imageI)
  then show ?thesis by (simp add: insertMessage_def findMessage_def find_None_iff)
qed

lemma m_id_systemMessage: "m_id (systemMessage mid cid f t n) = mid"
  by (simp add: systemMessage_def)

lemma findParticipant_messages_update:
  "findParticipant (d\<lparr>messages := ms\<rparr>) cid w = findParticipant d cid w"
  by (simp add: findParticipant_def)

lemma hasRole_rank: "hasRole a b \<longleftrightarrow> indexOf hierarchy b \<le> indexOf hierarchy a"
  by (simp add: hasRole_def)

lemma participants_DELETE_self:
  assumes "findParticipant d cid me = Some my" "isValidDid me"
    "msgId \<notin> m_id ` set (messages d)"
  shows "participants_DELETE me cid (Some me) msgId now d =
     (if p_role my = ''owner'' then (Err ''Owner must transfer ownership before leaving'' 400, d)
      else (Json Removed 200,
            (deleteParticipant d cid me)\<lparr>messages := messages d @
               [systemMessage msgId cid me (me @ '' '' @ ''left the group'') now]\<rparr>))"
  using assms
  by (simp add: participants_DELETE_def isValidDid_nonempty insertMessage_fresh
      m_id_systemMessage messages_deleteParticipant)

lemma participants_DELETE_other:
  assumes "findParticipant d cid me = Some my" "isValidDid target" "target \<noteq> me"
    "findParticipant d cid target = Some tp"
    "msgId \<notin> m_id ` set (messages d)"
  shows "participants_DELETE me cid (Some target) msgId now d =
     (if \<not> hasRole (p_role my) ''admin'' then (Err ''Permission denied'' 403, d)
      else if hasRole (p_role tp) (p_role my)
        then (Err ''Cannot remove participant with equal or higher role'' 400, d)
      else (Json Removed 200,
            (deleteParticipant d cid target)\<lparr>messages := messages d @
               [systemMessage msgId cid me (me @ '' '' @ ''removed '' @ target) now]\<rparr>))"
  using assms
  by (simp add: participants_DELETE_def isValidDid_nonempty insertMessage_fresh
      m_id_systemMessage messages_deleteParticipant)

text \<open>
  Claim C9. A request to remove \<open>target\<close> from a conversation, made by a participant
  \<open>me\<close> with a well-formed \<open>did\<close> parameter (the id drawn for the system message being
  unused). Leaving (\<open>target = me\<close>) succeeds and deletes the row for every role but
  owner; the owner is refused with the error of status 400 and nothing changes. Removing
  another participant succeeds exactly when the rank of the requester's role is at least
  the rank of admin and strictly greater than the rank of the target's role; a removal that
  succeeds deletes the row, and one that is refused changes nothing.
\<close>

theorem participants_DELETE_rule:
  assumes me: "findParticipant d cid me = Some my"
    and valid: "isValidDid target"
    and fresh: "msgId \<notin> m_id ` set (messages d)"
  shows "(target = me \<longrightarrow>
            (p_role my \<noteq> ''owner'' \<longrightarrow>
               fst (participants_DELETE me cid (Some target) msgId now d) = Json Removed 200 \<and>
               findParticipant (snd (participants_DELETE me cid (Some target) msgId now d)) cid me
                 = None) \<and>
            (p_role my = ''owner'' \<longrightarrow>
               participants_DELETE me cid (Some target) msgId now d =
                 (Err ''Owner must transfer ownership before leaving'' 400, d))) \<and>
         (target \<noteq> me \<longrightarrow>
            (\<forall>tp. findParticipant d cid target = Some tp \<longrightarrow>
               ((fst (participants_DELETE me cid (Some target) msgId now d) = Json Removed 200)
                = (indexOf hierarchy ''admin'' \<le> indexOf hierarchy (p_role my) \<and>
                   indexOf hierarchy (p_role tp) < indexOf hierarchy (p_role my))) \<and>
               (if fst (participants_DELETE me cid (Some target) msgId now d) = Json Removed 200
                then findParticipant (snd (participants_DELETE me cid (Some target) msgId now d))
                       cid target = None
                else snd (participants_DELETE me cid (Some target) msgId now d) = d)))"
proof (intro conjI impI allI)
  assume "target = me" "p_role my \<noteq> ''owner''"
  with participants_DELETE_self [OF me _ fresh, of now] valid
  show "fst (participants_DELETE me cid (Some target) msgId now d) = Json Removed 200"
    by simp
next
  assume "target = me" "p_role my \<noteq> ''owner''"
  with participants_DELETE_self [OF me _ fresh, of now] valid
  show "findParticipant (snd (participants_DELETE me cid (Some target) msgId now d)) cid me = None"
    by (simp add: findParticipant_messages_update findParticipant_delete_same)
next
  assume "target = me" "p_role my = ''owner''"
  with participants_DELETE_self [OF me _ fresh, of now] valid
  show "participants_DELETE me cid (Some target) msgId now d =
          (Err ''Owner must transfer ownership before leaving'' 400, d)"
    by simp
next
  fix tp
  assume ne: "target \<noteq> me" and tp: "findParticipant d cid target = Some tp"
  show "(fst (participants_DELETE me cid (Some target) msgId now d) = Json Removed 200)
        = (indexOf hierarchy ''admin'' \<le> indexOf hierarchy (p_role my) \<and>
           indexOf hierarchy (p_role tp) < indexOf hierarchy (p_role my))"
    unfolding participants_DELETE_other [OF me valid ne tp fresh]
    by (auto simp: hasRole_rank)
next
  fix tp
  assume ne: "target \<noteq> me" and tp: "findParticipant d cid target = Some tp"
  show "if fst (participants_DELETE me cid (Some target) msgId now d) = Json Removed 200
        then findParticipant (snd (participants_DELETE me cid (Some target) msgId now d))
               cid target = None
        else snd (participants_DELETE me cid (Some target) msgId now d) = d"
    unfolding participants_DELETE_other [OF me valid ne tp fresh]
    by (simp add: findParticipant_messages_update findParticipant_delete_same)
qed

theorem participants_DELETE_rule_witness:
  "fst (participants_DELETE carol ''conv_launch'' (Some carol) ''msg_5'' 5000 sampleDb)
     = Json Removed 200 \<and>
   participants_DELETE alice ''conv_launch'' (Some alice) ''msg_5'' 5000 sampleDb
     = (Err ''Owner must transfer ownership before leaving'' 400, sampleDb) \<and>
   fst (participants_DELETE carol ''conv_launch'' (Some dave) ''msg_5'' 5000 sampleDb)
     \<noteq> Json Removed 200 \<and>
   fst (participants_DELETE bob ''conv_launch'' (Some carol) ''msg_5'' 5000 sampleDb)
     = Json Removed 200 \<and>
   fst (participants_DELETE bob ''conv_launch'' (Some alice) ''msg_5'' 5000 sampleDb)
     \<noteq> Json Removed 200"
proof -
  note r = participants_DELETE_rule [OF _ _ sample_fresh_message, of "''conv_launch''"]
  from r [OF findParticipant_sample(3) isValidDid_sample(3), of 5000]
  have 1: "fst (participants_DELETE carol ''conv_launch'' (Some carol) ''msg_5'' 5000 sampleDb)
     = Json Removed 200" by simp
  from r [OF findParticipant_sample(1) isValidDid_sample(1), of 5000]
  have 2: "participants_DELETE alice ''conv_launch'' (Some alice) ''msg_5'' 5000 sampleDb
     = (Err ''Owner must transfer ownership before leaving'' 400, sampleDb)" by simp
  from r [OF findParticipant_sample(3) isValidDid_sample(4), of 5000]
  have 3: "fst (participants_DELETE carol ''conv_launch'' (Some dave) ''msg_5'' 5000 sampleDb)
     \<noteq> Json Removed 200"
    by (simp add: findParticipant_sample sample_distinct)
  from r [OF findParticipant_sample(2) isValidDid_sample(3), of 5000]
  have 4: "fst (participants_DELETE bob ''conv_launch'' (Some carol) ''msg_5'' 5000 sampleDb)
     = Json Removed 200"
    by (simp add: findParticipant_sample sample_distinct)
  from r [OF findParticipant_sample(2) isValidDid_sample(1), of 5000]
  have 5: "fst (participants_DELETE bob ''conv_launch'' (Some alice) ''msg_5'' 5000 sampleDb)
     \<noteq> Json Removed 200"
    by (simp add: findParticipant_sample sample_distinct)
  from 1 2 3 4 5 show ?thesis by blast
qed

section \<open>Invites\<close>

lemma find_append_absent:
  "find P xs = None \<Longrightarrow> find P (xs @ ys) = find P ys"
  by (induction xs) (auto split: if_splits)






lemma findInvite_sample:
  "findInvite sampleDb ''inv_open'' = Some (sampleInvite ''inv_open'' None None)"
  "findInvite sampleDb ''inv_erin'' = Some (sampleInvite ''inv_erin'' (Some erin) None)"
  "findInvite sampleDb ''inv_9000'' = Some (sampleInvite ''inv_9000'' None (Some 9000))"
  "findInvite sampleDb ''inv_revoked''
     = Some ((sampleInvite ''inv_revoked'' None (Some 50))\<lparr>i_revokedAt := Some 100\<rparr>)"
  "findInvite sampleDb ''inv_full''
     = Some ((sampleInvite ''inv_full'' None None)\<lparr>i_maxUses := Some 1, i_usedCount := 1\<rparr>)"
  "findInvite sampleDb ''inv_none'' = None"
  by (simp_all add: findInvite_def sampleDb_def sampleInvite_def)



lemma findInvite_insertInvite:
  "insertInvite d i = Some d' \<Longrightarrow> findInvite d' (i_id i) = Some i"
  by (auto simp: insertInvite_def findInvite_def find_append_absent split: if_splits)

lemma invites_POST_success:
  assumes "invites_POST me cidField forDid maxUses hours iid now d = (Json r 201, d')"
  shows "\<exists>cid. r = Some \<lparr>i_id = iid, i_conversationId = cid, i_createdBy = me,
            i_forDid = orNull forDid, i_maxUses = maxUses, i_usedCount = 0,
            i_expiresAt = (case hours of None \<Rightarrow> None
                           | Some h \<Rightarrow> if h = 0 then None else Some (now + h * 60 * 60 * 1000)),
            i_revokedAt = None\<rparr> \<and>
          findInvite d' iid = r"
proof -
  from assms obtain cid p where c: "orNull cidField = Some cid"
    and p: "findParticipant d cid me = Some p" "hasRole (p_role p) ''admin''"
    by (auto simp: invites_POST_def split: option.splits if_splits)
  let ?i = "\<lparr>i_id = iid, i_conversationId = cid, i_createdBy = me,
            i_forDid = orNull forDid, i_maxUses = maxUses, i_usedCount = 0,
            i_expiresAt = (case hours of None \<Rightarrow> None
                           | Some h \<Rightarrow> if h = 0 then None else Some (now + h * 60 * 60 * 1000)),
            i_revokedAt = None\<rparr>"
  from assms c p have ins: "insertInvite d ?i = Some d'" and r: "r = findInvite d' iid"
    by (auto simp: invites_POST_def Let_def split: option.splits)
  from findInvite_insertInvite [OF ins] r show ?thesis by auto
qed

text \<open>
  Claim C8, amended. An invite that is created with \<open>expiresInHours = 0\<close> is stored with a
  null \<open>expiresAt\<close>, as one created without \<open>expiresInHours\<close> is; a preview of it, at any
  later time, does not report that the invite has expired. For any other number of hours the
  stored \<open>expiresAt\<close> is the creation time plus that many hours, in milliseconds.
\<close>

theorem invites_POST_expiresInHours:
  assumes "invites_POST me cidField forDid maxUses hours iid now d = (Json r 201, d')"
  shows "\<exists>i. r = Some i \<and> findInvite d' iid = Some i \<and>
           (hours = Some 0 \<longrightarrow>
              i_expiresAt i = None \<and>
              (\<forall>later. invite_GET iid later d' \<noteq> Err ''Invite has expired'' 410)) \<and>
           (\<forall>h. hours = Some h \<and> h \<noteq> 0 \<longrightarrow> i_expiresAt i = Some (now + h * 3600000))"
proof -
  from invites_POST_success [OF assms] obtain i where
    i: "r = Some i" "findInvite d' iid = Some i"
      "i_expiresAt i = (case hours of None \<Rightarrow> None
                        | Some h \<Rightarrow> if h = 0 then None else Some (now + h * 60 * 60 * 1000))"
      "i_revokedAt i = None"
    by auto
  have "invite_GET iid later d' \<noteq> Err ''Invite has expired'' 410" if "hours = Some 0" for later
    using i that
    by (auto simp: invite_GET_def inviteGone_def split: option.splits)
  with i show ?thesis by auto
qed

theorem invites_POST_expiresInHours_witness:
  "map_option i_expiresAt
     (findInvite (snd (invites_POST alice (Some ''conv_launch'') None None (Some 0)
                         ''inv_new'' 5000 sampleDb)) ''inv_new'') = Some None \<and>
   invite_GET ''inv_new'' 7000
     (snd (invites_POST alice (Some ''conv_launch'') None None (Some 0) ''inv_new'' 5000 sampleDb))
     \<noteq> Err ''Invite has expired'' 410 \<and>
   map_option i_expiresAt
     (findInvite (snd (invites_POST alice (Some ''conv_launch'') None None (Some 2)
                         ''inv_new'' 5000 sampleDb)) ''inv_new'') = Some (Some 7205000)"
proof -
  have ok: "is_json (fst (invites_POST alice (Some ''conv_launch'') None None (Some h)
                            ''inv_new'' 5000 sampleDb)) \<and>
            status (fst (invites_POST alice (Some ''conv_launch'') None None (Some h)
                           ''inv_new'' 5000 sampleDb)) = 201" for h
    by (simp add: invites_POST_def orNull_def findParticipant_def hasRole_def indexOf_def
        hierarchy_def insertInvite_def findInvite_def Let_def sample_defs)
  have "\<exists>r. invites_POST alice (Some ''conv_launch'') None None (Some h) ''inv_new'' 5000 sampleDb
        = (Json r 201,
           snd (invites_POST alice (Some ''conv_launch'') None None (Some h) ''inv_new'' 5000 sampleDb))"
    for h
    using ok [of h]
    by (cases "invites_POST alice (Some ''conv_launch'') None None (Some h) ''inv_new'' 5000 sampleDb";
        cases "fst (invites_POST alice (Some ''conv_launch'') None None (Some h) ''inv_new'' 5000 sampleDb)")
       auto
  then obtain r0 r2 where
    r0: "invites_POST alice (Some ''conv_launch'') None None (Some 0) ''inv_new'' 5000 sampleDb
        = (Json r0 201,
           snd (invites_POST alice (Some ''conv_launch'') None None (Some 0) ''inv_new'' 5000 sampleDb))"
    and r2: "invites_POST alice (Some ''conv_launch'') None None (Some 2) ''inv_new'' 5000 sampleDb
        = (Json r2 201,
           snd (invites_POST alice (Some ''conv_launch'') None None (Some 2) ''inv_new'' 5000 sampleDb))"
    by blast
  from invites_POST_expiresInHours [OF r0] invites_POST_expiresInHours [OF r2]
  show ?thesis by auto
qed

text \<open>
  Claim C8 as it is written fails: alice creates an invite with \<open>expiresInHours = 0\<close> at the
  time 5000; the stored \<open>expiresAt\<close> is null, not 5000, and the preview at the time 5001
  succeeds.
\<close>

theorem invites_POST_zero_hours_counterexample:
  "map_option i_expiresAt
     (findInvite (snd (invites_POST alice (Some ''conv_launch'') None None (Some 0)
                         ''inv_new'' 5000 sampleDb)) ''inv_new'') = Some None \<and>
   status (invite_GET ''inv_new'' 5001
             (snd (invites_POST alice (Some ''conv_launch'') None None (Some 0)
                     ''inv_new'' 5000 sampleDb))) = 200"
  by (simp add: invites_POST_def orNull_def findParticipant_def hasRole_def indexOf_def
      hierarchy_def insertInvite_def findInvite_def invite_GET_def inviteGone_def
      findConversation_def Let_def sample_defs)

text \<open>
  Claim C6, amended. When a participant of the invite's conversation redeems an invite
  that passes the three validity checks, the database is left as it was: no \<open>usedCount\<close>
  is incremented, no participant row inserted and no system message appended. The reply is
  \<open>alreadyMember\<close> when the invite is not bound to another identity, and Forbidden (403)
  when \<open>forDid\<close> names somebody else.
\<close>

theorem invite_POST_already_member:
  assumes "findInvite d iid = Some i"
    and "inviteGone i now = None"
    and "findParticipant d (i_conversationId i) me \<noteq> None"
  shows "invite_POST me iid msgId now d =
           (if orNull (i_forDid i) \<noteq> None \<and> i_forDid i \<noteq> Some me
            then Err ''This invite is for a different user'' 403
            else Json (AlreadyMember (i_conversationId i)) 200, d)"
  using assms by (simp add: invite_POST_def)

theorem invite_POST_already_member_witness:
  "invite_POST dave ''inv_open'' ''msg_5'' 5000 sampleDb
     = (Json (AlreadyMember ''conv_launch'') 200, sampleDb)"
proof -
  have g: "inviteGone (sampleInvite ''inv_open'' None None) 5000 = None"
    by (simp add: inviteGone_def sampleInvite_def)
  have p: "findParticipant sampleDb (i_conversationId (sampleInvite ''inv_open'' None None)) dave
             \<noteq> None"
    by (simp add: sampleInvite_def findParticipant_sample)
  from invite_POST_already_member [OF findInvite_sample(1) g p, of "''msg_5''"]
  show ?thesis by (simp add: sampleInvite_def orNull_def)
qed

text \<open>
  Claim C6 as it is written fails for an invite bound to another identity: \<open>inv_erin\<close> is
  valid and dave is a participant of its conversation, and dave's redemption is refused.
\<close>

theorem invite_POST_bound_counterexample:
  "findInvite sampleDb ''inv_erin'' = Some (sampleInvite ''inv_erin'' (Some erin) None) \<and>
   validAsSpecified (sampleInvite ''inv_erin'' (Some erin) None) 5000 \<and>
   findParticipant sampleDb ''conv_launch'' dave \<noteq> None \<and>
   invite_POST dave ''inv_erin'' ''msg_5'' 5000 sampleDb
     = (Err ''This invite is for a different user'' 403, sampleDb)"
  by (simp add: findInvite_def validAsSpecified_def findParticipant_def invite_POST_def
      inviteGone_def orNull_def sample_defs)

section \<open>Sending and listing messages\<close>

lemma findMessage_insertMessage:
  "insertMessage d m = Some d' \<Longrightarrow> findMessage d' (m_id m) = Some m"
  by (auto simp: insertMessage_def findMessage_def find_append_absent split: if_splits)

lemma findMessage_touchLastMessage:
  "findMessage (touchLastMessage d cid now) mid = findMessage d mid"
  by (simp add: findMessage_def touchLastMessage_def)

text \<open>
  Claim C2, amended. A message stored by the public send operation has the content the
  caller supplied, and its \<open>contentType\<close> is \<open>system\<close> exactly when the \<open>type\<close> property
  of that content is the string \<open>system\<close>; it is \<open>text\<close> otherwise. A caller can
  therefore store a message tagged \<open>system\<close>.
\<close>

theorem messages_POST_contentType:
  assumes "messages_POST me cid contentField replyTo mid now d = (Json r 201, d')"
  shows "\<exists>m content. r = Some m \<and> findMessage d' mid = Some m \<and>
           asObject contentField = Some content \<and> m_content m = content \<and> m_fromDid m = me \<and>
           m_contentType m =
             (if getProperty content ''type'' = Some (JStr ''system'') then ''system'' else ''text'')"
proof -
  from assms obtain content where c: "asObject contentField = Some content"
    by (auto simp: messages_POST_def split: option.splits if_splits)
  let ?m = "\<lparr>m_id = mid, m_conversationId = cid, m_fromDid = me, m_content = content,
             m_contentType = (if getProperty content ''type'' = Some (JStr ''system'')
                              then ''system'' else ''text''),
             m_replyTo = orNull replyTo, m_createdAt = now, m_deletedAt = None\<rparr>"
  from assms c obtain d1 where ins: "insertMessage d ?m = Some d1"
    and d': "d' = touchLastMessage d1 cid now" and r: "r = findMessage d' mid"
    by (auto simp: messages_POST_def Let_def split: option.splits if_splits)
  from findMessage_insertMessage [OF ins] have "findMessage d' mid = Some ?m"
    by (simp add: d' findMessage_touchLastMessage)
  with r c show ?thesis by simp
qed

theorem messages_POST_contentType_witness:
  "map_option m_contentType
     (findMessage (snd (messages_POST carol ''conv_launch''
                          (Some (JObj [(''encrypted'', JStr ''CCCC''), (''nonce'', JStr ''DDDD'')]))
                          None ''msg_5'' 5000 sampleDb)) ''msg_5'') = Some ''text''"
proof -
  let ?c = "JObj [(''encrypted'', JStr ''CCCC''), (''nonce'', JStr ''DDDD'')]"
  have "is_json (fst (messages_POST carol ''conv_launch'' (Some ?c) None ''msg_5'' 5000 sampleDb)) \<and>
        status (fst (messages_POST carol ''conv_launch'' (Some ?c) None ''msg_5'' 5000 sampleDb)) = 201"
    by (simp add: messages_POST_def findParticipant_def orNull_def insertMessage_def
        findMessage_def touchLastMessage_def Let_def sample_defs)
  then obtain r where
    "messages_POST carol ''conv_launch'' (Some ?c) None ''msg_5'' 5000 sampleDb
       = (Json r 201, snd (messages_POST carol ''conv_launch'' (Some ?c) None ''msg_5'' 5000 sampleDb))"
    by (cases "messages_POST carol ''conv_launch'' (Some ?c) None ''msg_5'' 5000 sampleDb";
        cases "fst (messages_POST carol ''conv_launch'' (Some ?c) None ''msg_5'' 5000 sampleDb)")
       auto
  from messages_POST_contentType [OF this] show ?thesis by auto
qed

text \<open>
  Claim C2 as it is written fails: carol, a member, sends a content object whose \<open>type\<close> is
  \<open>system\<close>, and the stored message has the \<open>contentType\<close> \<open>system\<close>.
\<close>

theorem messages_POST_system_counterexample:
  "map_option m_contentType
     (findMessage (snd (messages_POST carol ''conv_launch''
                          (Some (JObj [(''type'', JStr ''system''),
                                       (''text'', JStr ''the owner left the group'')]))
                          None ''msg_5'' 5000 sampleDb)) ''msg_5'') = Some ''system'' \<and>
   status (fst (messages_POST carol ''conv_launch''
                  (Some (JObj [(''type'', JStr ''system''),
                               (''text'', JStr ''the owner left the group'')]))
                  None ''msg_5'' 5000 sampleDb)) = 201"
  by (simp add: messages_POST_def findParticipant_def orNull_def insertMessage_def
      findMessage_def touchLastMessage_def Let_def sample_defs)

lemma limited_page:
  "rev (limitRows l (orderByCreatedAtDesc ms))
     = drop (case l of NaN \<Rightarrow> 0 | Num n \<Rightarrow> if 0 \<le> n then length ms - nat n else 0)
         (sort_key m_createdAt ms)"
  by (cases l) (simp_all add: limitRows_def orderByCreatedAtDesc_def take_rev)

lemma sorted_page: "sorted (map m_createdAt (drop k (sort_key m_createdAt ms)))"
proof -
  have "sorted (drop k (map m_createdAt (sort_key m_createdAt ms)))"
    by (rule sorted_wrt_drop) (rule sorted_sort_key)
  then show ?thesis by (simp add: drop_map)
qed

lemma strict_page:
  assumes "distinct (map m_createdAt ms)"
  shows "sorted_wrt (<) (map m_createdAt (drop k (sort_key m_createdAt ms)))"
proof -
  from assms have "distinct (map m_createdAt (sort_key m_createdAt ms))"
    by (simp add: distinct_map)
  then have "distinct (drop k (map m_createdAt (sort_key m_createdAt ms)))"
    by (rule distinct_drop)
  then have "distinct (map m_createdAt (drop k (sort_key m_createdAt ms)))"
    by (simp add: drop_map)
  with sorted_page [of k ms] show ?thesis by (simp add: strict_sorted_iff)
qed

lemma page_most_recent:
  assumes "m \<in> set ms" "m \<notin> set (drop k (sort_key m_createdAt ms))"
    and "q \<in> set (drop k (sort_key m_createdAt ms))"
  shows "m_createdAt m \<le> m_createdAt q"
proof -
  let ?s = "sort_key m_createdAt ms"
  have "set ?s = set (take k ?s) \<union> set (drop k ?s)"
    by (metis append_take_drop_id set_append)
  with assms have m: "m \<in> set (take k ?s)" by auto
  have "sorted (map m_createdAt (take k ?s @ drop k ?s))"
    by (simp add: sorted_sort_key)
  then have "\<forall>x\<in>set (take k ?s). \<forall>y\<in>set (drop k ?s). m_createdAt x \<le> m_createdAt y"
    unfolding map_append sorted_append by auto
  with m assms(3) show ?thesis by blast
qed

lemma messages_GET_reply:
  assumes "findParticipant d cid me = Some p"
  shows "messages_GET me cid limitParam before d =
           Json \<lparr>pg_messages =
                   drop (case pageLimit limitParam of
                           NaN \<Rightarrow> 0
                         | Num n \<Rightarrow> if 0 \<le> n
                                    then length (selectMessages d cid (cursorTime d before)) - nat n
                                    else 0)
                     (sort_key m_createdAt (selectMessages d cid (cursorTime d before))),
                 pg_hasMore =
                   lengthIs (limitRows (pageLimit limitParam)
                               (orderByCreatedAtDesc (selectMessages d cid (cursorTime d before))))
                     (pageLimit limitParam)\<rparr> 200"
  using assms by (simp add: messages_GET_def Let_def limited_page)

lemma length_limitRows:
  "length (limitRows l rows)
     = (case l of NaN \<Rightarrow> length rows
        | Num n \<Rightarrow> if 0 \<le> n then min (nat n) (length rows) else length rows)"
  by (cases l) (simp_all add: limitRows_def min_def)

lemma messages_GET_unlimited:
  assumes "findParticipant d cid me = Some p" and "n < 0"
  shows "messages_GET me cid (Some (Num n)) before d =
           Json \<lparr>pg_messages = sort_key m_createdAt (selectMessages d cid (cursorTime d before)),
                 pg_hasMore = False\<rparr> 200"
  using assms
  by (simp add: messages_GET_reply [OF assms(1)] pageLimit_def lengthIs_def length_limitRows
      orderByCreatedAtDesc_def)

text \<open>
  Claim C7, amended. For a participant, the list request answers a page with these
  properties. The limit is 50 when none is given, and a limit that is a number is at most
  100. The eligible messages are those of the conversation that are not soft-deleted and,
  when \<open>before\<close> names an existing message, strictly older than that message. Every
  message of the page is eligible, the page is in chronological order, oldest first
  (strictly so when the eligible messages have distinct creation times), and no eligible
  message outside the page is newer than a message of the page. When the limit is a number
  that is not negative, the page holds as many messages as the limit allows (the smaller of
  the limit and the number of eligible messages), and \<open>hasMore\<close> is true iff the page has
  exactly \<open>limit\<close> messages. When the limit is negative or not a number, no limit is
  applied: the page holds every eligible message, and \<open>hasMore\<close> is false. The witness
  gives the example of the claim, where the second page has \<open>hasMore\<close> true.
\<close>

theorem messages_GET_page:
  assumes "findParticipant d cid me = Some p"
  shows "\<exists>pg. messages_GET me cid limitParam before d = Json pg 200 \<and>
     (limitParam = None \<longrightarrow> pageLimit limitParam = Num 50) \<and>
     (\<forall>n. pageLimit limitParam = Num n \<longrightarrow> n \<le> 100) \<and>
     (\<forall>m. m \<in> set (selectMessages d cid (cursorTime d before)) \<longleftrightarrow>
            m \<in> set (messages d) \<and> m_conversationId m = cid \<and> m_deletedAt m = None \<and>
            (\<forall>b c. before = Some b \<and> b \<noteq> [] \<and>
                    map_option m_createdAt (findMessage d b) = Some c
                    \<longrightarrow> m_createdAt m < c)) \<and>
     set (pg_messages pg) \<subseteq> set (selectMessages d cid (cursorTime d before)) \<and>
     sorted (map m_createdAt (pg_messages pg)) \<and>
     (distinct (map m_createdAt (selectMessages d cid (cursorTime d before))) \<longrightarrow>
        sorted_wrt (<) (map m_createdAt (pg_messages pg))) \<and>
     (\<forall>m \<in> set (selectMessages d cid (cursorTime d before)) - set (pg_messages pg).
        \<forall>q \<in> set (pg_messages pg). m_createdAt m \<le> m_createdAt q) \<and>
     (\<forall>n. pageLimit limitParam = Num n \<and> 0 \<le> n \<longrightarrow>
        length (pg_messages pg) =
          min (nat n) (length (selectMessages d cid (cursorTime d before))) \<and>
        pg_hasMore pg = (int (length (pg_messages pg)) = n)) \<and>
     (pageLimit limitParam = NaN \<or> (\<exists>n. pageLimit limitParam = Num n \<and> n < 0) \<longrightarrow>
        length (pg_messages pg) = length (selectMessages d cid (cursorTime d before)) \<and>
        \<not> pg_hasMore pg)"
proof -
  let ?E = "selectMessages d cid (cursorTime d before)"
  let ?l = "pageLimit limitParam"
  let ?k = "case ?l of NaN \<Rightarrow> 0 | Num n \<Rightarrow> if 0 \<le> n then length ?E - nat n else 0"
  let ?page = "drop ?k (sort_key m_createdAt ?E)"
  let ?more = "lengthIs (limitRows ?l (orderByCreatedAtDesc ?E)) ?l"
  let ?pg = "\<lparr>pg_messages = ?page, pg_hasMore = ?more\<rparr>"
  have pm: "pg_messages ?pg = ?page" and ph: "pg_hasMore ?pg = ?more"
    by simp_all
  have get: "messages_GET me cid limitParam before d = Json ?pg 200"
    by (rule messages_GET_reply [OF assms])
  have len: "length (limitRows ?l (orderByCreatedAtDesc ?E)) = length ?page"
    by (metis length_rev limited_page)
  have elig: "m \<in> set ?E \<longleftrightarrow>
            m \<in> set (messages d) \<and> m_conversationId m = cid \<and> m_deletedAt m = None \<and>
            (\<forall>b c. before = Some b \<and> b \<noteq> [] \<and>
                    map_option m_createdAt (findMessage d b) = Some c
                    \<longrightarrow> m_createdAt m < c)" for m
    by (auto simp: selectMessages_def cursorTime_def split: option.splits)
  show ?thesis
  proof (intro exI [of _ ?pg] conjI allI impI)
    show "messages_GET me cid limitParam before d = Json ?pg 200" by (rule get)
    show "pageLimit limitParam = Num 50" if "limitParam = None"
      using that by (simp add: pageLimit_def)
    show "n \<le> 100" if "pageLimit limitParam = Num n" for n
      using that by (auto simp: pageLimit_def split: option.splits jsnum.splits)
    show "set (pg_messages ?pg) \<subseteq> set ?E" unfolding pm
      using set_drop_subset [of ?k "sort_key m_createdAt ?E"] by simp
    show "sorted (map m_createdAt (pg_messages ?pg))" unfolding pm by (rule sorted_page)
    show "sorted_wrt (<) (map m_createdAt (pg_messages ?pg))"
      if "distinct (map m_createdAt ?E)"
      unfolding pm using that by (rule strict_page)
    show "\<forall>m \<in> set ?E - set (pg_messages ?pg).
            \<forall>q \<in> set (pg_messages ?pg). m_createdAt m \<le> m_createdAt q"
      unfolding pm using page_most_recent by blast
    show "length (pg_messages ?pg) = min (nat n) (length ?E)"
      if "pageLimit limitParam = Num n \<and> 0 \<le> n" for n
      unfolding pm using that by auto
    show "pg_hasMore ?pg = (int (length (pg_messages ?pg)) = n)"
      if "pageLimit limitParam = Num n \<and> 0 \<le> n" for n
      unfolding pm ph using that len by (simp add: lengthIs_def)
    show "length (pg_messages ?pg) = length ?E"
      if "pageLimit limitParam = NaN \<or> (\<exists>n. pageLimit limitParam = Num n \<and> n < 0)"
      unfolding pm using that by auto
    show "\<not> pg_hasMore ?pg"
      if "pageLimit limitParam = NaN \<or> (\<exists>n. pageLimit limitParam = Num n \<and> n < 0)"
      unfolding ph using that by (auto simp: lengthIs_def)
  next
    fix m show "m \<in> set ?E \<longleftrightarrow>
            m \<in> set (messages d) \<and> m_conversationId m = cid \<and> m_deletedAt m = None \<and>
            (\<forall>b c. before = Some b \<and> b \<noteq> [] \<and>
                    map_option m_createdAt (findMessage d b) = Some c
                    \<longrightarrow> m_createdAt m < c)" by (rule elig)
  qed
qed

lemma sample_first_page:
  "messages_GET alice ''conv_launch'' (Some (Num 2)) None sampleDb =
     Json \<lparr>pg_messages = [sampleMessage ''msg_3'' 3000, sampleMessage ''msg_4'' 4000],
           pg_hasMore = True\<rparr> 200"
  by (simp add: messages_GET_def pageLimit_def limitRows_def lengthIs_def findParticipant_def
      selectMessages_def cursorTime_def orderByCreatedAtDesc_def Let_def sample_defs)

lemma sample_second_page:
  "messages_GET alice ''conv_launch'' (Some (Num 2)) (Some ''msg_3'') sampleDb =
     Json \<lparr>pg_messages = [sampleMessage ''msg_1'' 1000, sampleMessage ''msg_2'' 2000],
           pg_hasMore = True\<rparr> 200"
  by (simp add: messages_GET_def pageLimit_def limitRows_def lengthIs_def findParticipant_def
      selectMessages_def cursorTime_def findMessage_def orderByCreatedAtDesc_def Let_def
      sample_defs)

lemma sample_eligible_before_msg_3:
  "selectMessages sampleDb ''conv_launch'' (cursorTime sampleDb (Some ''msg_3''))
     = [sampleMessage ''msg_1'' 1000, sampleMessage ''msg_2'' 2000]"
  "selectMessages sampleDb ''conv_launch'' (cursorTime sampleDb None)
     = [sampleMessage ''msg_1'' 1000, sampleMessage ''msg_2'' 2000,
        sampleMessage ''msg_3'' 3000, sampleMessage ''msg_4'' 4000]"
  by (simp_all add: selectMessages_def cursorTime_def findMessage_def sample_defs)

theorem messages_GET_page_witness:
  "messages_GET alice ''conv_launch'' (Some (Num 2)) None sampleDb =
     Json \<lparr>pg_messages = [sampleMessage ''msg_3'' 3000, sampleMessage ''msg_4'' 4000],
           pg_hasMore = True\<rparr> 200 \<and>
   messages_GET alice ''conv_launch'' (Some (Num 2)) (Some ''msg_3'') sampleDb =
     Json \<lparr>pg_messages = [sampleMessage ''msg_1'' 1000, sampleMessage ''msg_2'' 2000],
           pg_hasMore = True\<rparr> 200 \<and>
   sorted_wrt (<) (map m_createdAt [sampleMessage ''msg_1'' 1000, sampleMessage ''msg_2'' 2000]) \<and>
   map_option (length \<circ> pg_messages)
     (payload (messages_GET alice ''conv_launch'' (Some (Num (- 1))) None sampleDb)) = Some 4 \<and>
   map_option pg_hasMore
     (payload (messages_GET alice ''conv_launch'' (Some NaN) None sampleDb)) = Some False \<and>
   map_option (length \<circ> pg_messages)
     (payload (messages_GET alice ''conv_launch'' None None sampleDb)) = Some 4"
proof -
  have l: "pageLimit (Some (Num 2)) = Num 2" "pageLimit (Some (Num (- 1))) = Num (- 1)"
    "pageLimit (Some NaN) = NaN" "pageLimit None = Num 50"
    by (simp_all add: pageLimit_def)
  have dist: "distinct (map m_createdAt
                (selectMessages sampleDb ''conv_launch'' (cursorTime sampleDb (Some ''msg_3''))))"
    by (simp add: sample_eligible_before_msg_3 sampleMessage_def)
  from messages_GET_page [OF findParticipant_sample(1),
      where limitParam = "Some (Num 2)" and before = "Some ''msg_3''"] dist
  obtain pg where pg: "messages_GET alice ''conv_launch'' (Some (Num 2)) (Some ''msg_3'') sampleDb
                         = Json pg 200"
    "sorted_wrt (<) (map m_createdAt (pg_messages pg))"
    by blast
  from pg(1) have "pg = \<lparr>pg_messages = [sampleMessage ''msg_1'' 1000, sampleMessage ''msg_2'' 2000],
           pg_hasMore = True\<rparr>"
    by (simp add: sample_second_page)
  with pg(2)
  have 1: "sorted_wrt (<) (map m_createdAt
             [sampleMessage ''msg_1'' 1000, sampleMessage ''msg_2'' 2000])"
    by simp
  from messages_GET_page [OF findParticipant_sample(1),
      where limitParam = "Some (Num (- 1))" and before = None] l(2)
  obtain pg1 where pg1: "messages_GET alice ''conv_launch'' (Some (Num (- 1))) None sampleDb
                           = Json pg1 200"
    "length (pg_messages pg1)
       = length (selectMessages sampleDb ''conv_launch'' (cursorTime sampleDb None))"
    by auto
  then have 2: "map_option (length \<circ> pg_messages)
     (payload (messages_GET alice ''conv_launch'' (Some (Num (- 1))) None sampleDb)) = Some 4"
    by (simp add: sample_eligible_before_msg_3)
  from messages_GET_page [OF findParticipant_sample(1),
      where limitParam = "Some NaN" and before = None] l(3)
  obtain pg2 where "messages_GET alice ''conv_launch'' (Some NaN) None sampleDb = Json pg2 200"
    "\<not> pg_hasMore pg2"
    by auto
  then have 3: "map_option pg_hasMore
     (payload (messages_GET alice ''conv_launch'' (Some NaN) None sampleDb)) = Some False"
    by simp
  from messages_GET_page [OF findParticipant_sample(1),
      where limitParam = None and before = None] l(4)
  obtain pg3 where "messages_GET alice ''conv_launch'' None None sampleDb = Json pg3 200"
    "length (pg_messages pg3)
       = min (nat 50) (length (selectMessages sampleDb ''conv_launch'' (cursorTime sampleDb None)))"
    by auto
  then have 4: "map_option (length \<circ> pg_messages)
     (payload (messages_GET alice ''conv_launch'' None None sampleDb)) = Some 4"
    by (simp add: sample_eligible_before_msg_3)
  from sample_first_page sample_second_page 1 2 3 4 show ?thesis by blast
qed

lemma findParticipant_bigDb:
  "findParticipant bigDb ''conv_launch'' alice =
     Some \<lparr>p_conversationId = ''conv_launch'', p_did = alice, p_role = ''owner'', p_invitedBy = None\<rparr>"
  using findParticipant_sample(1) by (simp add: bigDb_def findParticipant_def)

lemma bigDb_all_selected:
  "selectMessages bigDb ''conv_launch'' (cursorTime bigDb None) = manyMessages"
proof -
  have "\<forall>m \<in> set manyMessages. m_conversationId m = ''conv_launch'' \<and> m_deletedAt m = None"
    by (auto simp: manyMessages_def sampleMessage_def)
  then have "filter (\<lambda>m. m_conversationId m = ''conv_launch'' \<and> m_deletedAt m = None)
               manyMessages = manyMessages"
    by (simp add: filter_id_conv)
  then show ?thesis by (simp add: selectMessages_def cursorTime_def bigDb_def)
qed

text \<open>
  Claim C7 as it is written fails twice. In its example, with the four messages of the
  sample group and \<open>limit = 2\<close>, the page before \<open>msg_3\<close> holds the two oldest messages and
  exactly \<open>limit\<close> rows, so its \<open>hasMore\<close> is true, not false. And the page is not at most
  \<open>limit\<close> messages with the limit capped at 100: with \<open>limit = -1\<close> the group with 101
  messages answers all 101 of them.
\<close>

theorem messages_GET_hasMore_counterexample:
  "messages_GET alice ''conv_launch'' (Some (Num 2)) (Some ''msg_3'') sampleDb =
     Json \<lparr>pg_messages = [sampleMessage ''msg_1'' 1000, sampleMessage ''msg_2'' 2000],
           pg_hasMore = True\<rparr> 200 \<and>
   messages_GET alice ''conv_launch'' (Some (Num 2)) (Some ''msg_3'') sampleDb \<noteq>
     Json \<lparr>pg_messages = [sampleMessage ''msg_1'' 1000, sampleMessage ''msg_2'' 2000],
           pg_hasMore = False\<rparr> 200 \<and>
   status (messages_GET alice ''conv_launch'' (Some (Num (- 1))) None bigDb) = 200 \<and>
   map_option (length \<circ> pg_messages)
     (payload (messages_GET alice ''conv_launch'' (Some (Num (- 1))) None bigDb)) = Some 101"
proof -
  have "length manyMessages = 101" by (simp add: manyMessages_def)
  with messages_GET_unlimited [OF findParticipant_bigDb, of "- 1" None]
  have "status (messages_GET alice ''conv_launch'' (Some (Num (- 1))) None bigDb) = 200 \<and>
        map_option (length \<circ> pg_messages)
          (payload (messages_GET alice ''conv_launch'' (Some (Num (- 1))) None bigDb)) = Some 101"
    by (simp add: bigDb_all_selected)
  with sample_second_page show ?thesis by simp
qed

section \<open>Creating a direct conversation\<close>

lemma addRow_keys: "fst ` set (addRow acc k v) = insert k (fst ` set acc)"
proof (induction acc)
  case Nil
  then show ?case by simp
next
  case (Cons e acc)
  obtain k' s where e: "e = (k', s)" by (cases e)
  show ?case
  proof (cases "k' = k")
    case True
    then show ?thesis by (simp add: e)
  next
    case False
    with Cons.IH show ?thesis by (simp add: e insert_commute)
  qed
qed

lemma addRow_distinct: "distinct (map fst acc) \<Longrightarrow> distinct (map fst (addRow acc k v))"
proof (induction acc)
  case Nil
  then show ?case by simp
next
  case (Cons e acc)
  obtain k' s where e: "e = (k', s)" by (cases e)
  show ?case
  proof (cases "k' = k")
    case True
    with Cons.prems e show ?thesis by simp
  next
    case False
    from Cons.prems e have "k' \<notin> fst ` set acc" and "distinct (map fst acc)" by auto
    with False Cons.IH e show ?thesis
      by (simp add: addRow_keys del: set_map)
         (metis addRow_keys insertE list.set_map)
  qed
qed

lemma didsFor_addRow:
  "didsFor (addRow acc k v) j = (if j = k then insert v (didsFor acc k) else didsFor acc j)"
  by (induction acc) (auto simp: didsFor_def)

lemma didsFor_entry:
  "distinct (map fst acc) \<Longrightarrow> (k, s) \<in> set acc \<Longrightarrow> didsFor acc k = s"
  by (simp add: didsFor_def)

lemma foldl_addRow_distinct:
  fixes rows :: "(conversation \<times> participant) list"
  shows "distinct (map fst acc) \<Longrightarrow>
         distinct (map fst (foldl (\<lambda>acc (c, p). addRow acc (c_id c) (p_did p)) acc rows))"
  by (induction rows arbitrary: acc) (auto simp: addRow_distinct)

lemma foldl_addRow_keys:
  fixes rows :: "(conversation \<times> participant) list"
  shows "fst ` set (foldl (\<lambda>acc (c, p). addRow acc (c_id c) (p_did p)) acc rows)
           = fst ` set acc \<union> (\<lambda>(c, p). c_id c) ` set rows"
proof (induction rows arbitrary: acc)
  case Nil
  then show ?case by simp
next
  case (Cons r rows)
  obtain c p where r: "r = (c, p)" by (cases r)
  from Cons.IH [of "addRow acc (c_id c) (p_did p)"] show ?case
    by (simp add: r addRow_keys)
qed

lemma foldl_addRow_dids:
  fixes rows :: "(conversation \<times> participant) list"
  shows "didsFor (foldl (\<lambda>acc (c, p). addRow acc (c_id c) (p_did p)) acc rows) k
           = didsFor acc k \<union> {p_did p | c p. (c, p) \<in> set rows \<and> c_id c = k}"
proof (induction rows arbitrary: acc)
  case Nil
  then show ?case by simp
next
  case (Cons r rows)
  obtain c p where r: "r = (c, p)" by (cases r)
  from Cons.IH [of "addRow acc (c_id c) (p_did p)"] show ?case
    by (auto simp: r didsFor_addRow)
qed

lemma find_SomeD: "find P xs = Some x \<Longrightarrow> x \<in> set xs \<and> P x"
  by (induction xs) (auto split: if_splits)

lemma convCounts_entry:
  assumes "(k, s) \<in> set (convCounts rows)"
  shows "s = {p_did p | c p. (c, p) \<in> set rows \<and> c_id c = k}"
proof -
  have d: "distinct (map fst (convCounts rows))"
    unfolding convCounts_def by (rule foldl_addRow_distinct) simp
  from didsFor_entry [OF d assms] foldl_addRow_dids [of "[]" rows k] show ?thesis
    by (simp add: convCounts_def didsFor_def)
qed

lemma convCounts_has_entry:
  assumes "(c, p) \<in> set rows"
  shows "\<exists>s. (c_id c, s) \<in> set (convCounts rows)"
proof -
  from assms have "c_id c \<in> (\<lambda>(c, p). c_id c) ` set rows" by force
  then have "c_id c \<in> fst ` set (convCounts rows)"
    unfolding convCounts_def by (simp add: foldl_addRow_keys)
  then show ?thesis by auto
qed

lemma set_directRows:
  "(c, p) \<in> set (directRows d a b) \<longleftrightarrow>
     c \<in> set (conversations d) \<and> p \<in> set (participants d) \<and> p_conversationId p = c_id c \<and>
     c_type c = ''direct'' \<and> (p_did p = a \<or> p_did p = b)"
  by (auto simp: directRows_def)

lemma findParticipant_None_iff:
  "findParticipant d k a = None \<longleftrightarrow>
     \<not> (\<exists>p \<in> set (participants d). p_conversationId p = k \<and> p_did p = a)"
  by (auto simp: findParticipant_def find_None_iff)

lemma findParticipant_Some_iff:
  "(\<exists>y. findParticipant d k a = Some y) \<longleftrightarrow>
     (\<exists>p \<in> set (participants d). p_conversationId p = k \<and> p_did p = a)"
  using findParticipant_None_iff [of d k a] by auto

lemma did_in_directRows:
  "x \<in> {p_did p | c p. (c, p) \<in> set (directRows d a b) \<and> c_id c = k} \<longleftrightarrow>
     (x = a \<or> x = b) \<and>
     (\<exists>c \<in> set (conversations d). c_id c = k \<and> c_type c = ''direct'') \<and>
     findParticipant d k x \<noteq> None"
proof
  assume "x \<in> {p_did p | c p. (c, p) \<in> set (directRows d a b) \<and> c_id c = k}"
  then obtain c p where "x = p_did p" "(c, p) \<in> set (directRows d a b)" "c_id c = k"
    by blast
  then have "x = a \<or> x = b" "c \<in> set (conversations d)" "c_id c = k" "c_type c = ''direct''"
    "p \<in> set (participants d)" "p_conversationId p = k" "p_did p = x"
    by (auto simp: set_directRows)
  then show "(x = a \<or> x = b) \<and>
     (\<exists>c \<in> set (conversations d). c_id c = k \<and> c_type c = ''direct'') \<and>
     findParticipant d k x \<noteq> None"
    unfolding findParticipant_None_iff by blast
next
  assume r: "(x = a \<or> x = b) \<and>
     (\<exists>c \<in> set (conversations d). c_id c = k \<and> c_type c = ''direct'') \<and>
     findParticipant d k x \<noteq> None"
  then obtain c p where "c \<in> set (conversations d)" "c_id c = k" "c_type c = ''direct''"
    "p \<in> set (participants d)" "p_conversationId p = k" "p_did p = x"
    unfolding findParticipant_None_iff by blast
  with r have "(c, p) \<in> set (directRows d a b)" "c_id c = k" "x = p_did p"
    by (auto simp: set_directRows)
  then show "x \<in> {p_did p | c p. (c, p) \<in> set (directRows d a b) \<and> c_id c = k}"
    by blast
qed

lemma convCounts_directRows:
  assumes "(k, s) \<in> set (convCounts (directRows d a b))"
  shows "(a \<in> s \<and> b \<in> s) = directBetween d k a b"
  unfolding convCounts_entry [OF assms] did_in_directRows directBetween_def by auto

lemma existingDirect_Some:
  assumes "existingDirect d a b = Some k"
  shows "directBetween d k a b"
proof -
  from assms obtain s where f: "find (\<lambda>(convId, dids). a \<in> dids \<and> b \<in> dids)
      (convCounts (directRows d a b)) = Some (k, s)"
    by (auto simp: existingDirect_def)
  from find_SomeD [OF f]
  have mem: "(k, s) \<in> set (convCounts (directRows d a b))" and both: "a \<in> s \<and> b \<in> s"
    by auto
  from both convCounts_directRows [OF mem] show ?thesis by simp
qed

lemma existingDirect_None:
  assumes "existingDirect d a b = None"
  shows "\<not> directBetween d k a b"
proof
  assume db: "directBetween d k a b"
  then obtain c p where c: "c \<in> set (conversations d)" "c_id c = k" "c_type c = ''direct''"
    and p: "p \<in> set (participants d)" "p_conversationId p = k" "p_did p = a"
    unfolding directBetween_def findParticipant_None_iff by blast
  then have "(c, p) \<in> set (directRows d a b)" by (simp add: set_directRows)
  from convCounts_has_entry [OF this] c(2) obtain s where
    mem: "(k, s) \<in> set (convCounts (directRows d a b))" by auto
  from convCounts_directRows [OF mem] db have "a \<in> s \<and> b \<in> s" by simp
  with mem have "find (\<lambda>(convId, dids). a \<in> dids \<and> b \<in> dids)
      (convCounts (directRows d a b)) \<noteq> None"
    by (auto simp: find_None_iff)
  with assms show False by (simp add: existingDirect_def)
qed

lemma existingDirect_commute: "existingDirect d a b = existingDirect d b a"
proof -
  have sw: "(x = a \<or> y = b) = (y = b \<or> x = a)" for x y :: string
    by auto
  have "directRows d a b = directRows d b a"
    unfolding directRows_def sw by (rule refl)
  moreover have "(\<lambda>(convId :: string, dids). a \<in> dids \<and> b \<in> dids)
                 = (\<lambda>(convId, dids). b \<in> dids \<and> a \<in> dids)"
    by (auto simp: fun_eq_iff)
  ultimately show ?thesis by (simp add: existingDirect_def)
qed

lemma directBetween_findConversation:
  assumes "directBetween d k a b"
  shows "\<exists>conv. findConversation d k = Some conv \<and> c_id conv = k"
proof -
  from assms have "find (\<lambda>c. c_id c = k) (conversations d) \<noteq> None"
    by (auto simp: directBetween_def find_None_iff)
  then obtain conv where "find (\<lambda>c. c_id c = k) (conversations d) = Some conv" by auto
  then show ?thesis by (auto simp: findConversation_def dest: find_SomeD)
qed

lemma conversations_POST_direct_request:
  assumes "isValidDid b" "cb_type body = Some ''direct''" "cb_participantDids body = Some [b]"
  shows "conversations_POST a body newId msgId now d =
           (case existingDirect d a b of
              Some k \<Rightarrow> (Json (Existing (findConversation d k)) 200, d)
            | None \<Rightarrow> createConversation a ''direct'' body [b] newId msgId now d)"
  using assms by (simp add: conversations_POST_def split: option.splits)

lemma createConversation_direct:
  assumes ne: "a \<noteq> b" and unused: "unusedConversationId d newId"
    and vis: "visibilityOf (cb_visibility body) = Some visibility"
  shows "createConversation a ''direct'' body [b] newId msgId now d =
           (Json (Created (Some (newConversation a ''direct'' body visibility newId now))) 201,
            d\<lparr>conversations :=
                conversations d @ [newConversation a ''direct'' body visibility newId now],
              participants := participants d @ [ownerRow newId a, memberRow newId a b]\<rparr>)"
proof -
  define conv where "conv = newConversation a ''direct'' body visibility newId now"
  define d1 where "d1 = d\<lparr>conversations := conversations d @ [conv]\<rparr>"
  define d2 where "d2 = d1\<lparr>participants := participants d1 @ [ownerRow newId a]\<rparr>"
  define d3 where "d3 = d2\<lparr>participants := participants d2 @ [memberRow newId a b]\<rparr>"
  have id: "c_id conv = newId" by (simp add: conv_def newConversation_def)
  from unused have none: "findConversation d newId = None"
    and nop: "findParticipant d newId x = None" for x
    by (auto simp: unusedConversationId_def findParticipant_None_iff)
  from none have 1: "insertConversation d conv = Some d1"
    by (simp add: insertConversation_def id d1_def)
  have "findParticipant d1 newId a = None"
    using nop [of a] by (simp add: findParticipant_def d1_def)
  then have 2: "insertParticipant d1 (ownerRow newId a) = Some d2"
    by (simp add: insertParticipant_def ownerRow_def d2_def)
  have "findParticipant d2 newId b = None"
    using nop [of b] ne
    by (simp add: findParticipant_def find_append_absent ownerRow_def d2_def d1_def)
  then have "insertParticipant d2 (memberRow newId a b) = Some d3"
    by (simp add: insertParticipant_def memberRow_def d3_def)
  with ne have 3: "insertMembers d2 newId a [b] = Inr d3" by simp
  from none have 4: "findConversation d3 newId = Some conv"
    by (simp add: findConversation_def find_append_absent id d3_def d2_def d1_def)
  have "createConversation a ''direct'' body [b] newId msgId now d
          = (Json (Created (Some conv)) 201, d3)"
    by (simp add: createConversation_def vis conv_def [symmetric] 1 2 3 4
        del: insertMembers.simps)
  then show ?thesis by (simp add: conv_def d3_def d2_def d1_def)
qed

lemma conversations_POST_direct_new:
  assumes "a \<noteq> b" "isValidDid b"
    and "cb_type body = Some ''direct''" "cb_participantDids body = Some [b]"
    and "cb_visibility body \<noteq> Some None"
    and "\<not> (\<exists>k. directBetween d k a b)" "unusedConversationId d newId"
  shows "conversations_POST a body newId msgId now d =
           (Json (Created (Some \<lparr>c_id = newId, c_type = ''direct'', c_name = orNull (cb_name body),
                          c_description = orNull (cb_description body),
                          c_visibility = (case cb_visibility body of Some (Some v) \<Rightarrow> v | _ \<Rightarrow> ''private''),
                          c_createdBy = a, c_updatedAt = now, c_lastMessageAt = None\<rparr>)) 201,
            d\<lparr>conversations := conversations d @ [\<lparr>c_id = newId, c_type = ''direct'', c_name = orNull (cb_name body),
                          c_description = orNull (cb_description body),
                          c_visibility = (case cb_visibility body of Some (Some v) \<Rightarrow> v | _ \<Rightarrow> ''private''),
                          c_createdBy = a, c_updatedAt = now, c_lastMessageAt = None\<rparr>],
              participants := participants d @
                [\<lparr>p_conversationId = newId, p_did = a, p_role = ''owner'', p_invitedBy = None\<rparr>,
                 \<lparr>p_conversationId = newId, p_did = b, p_role = ''member'', p_invitedBy = Some a\<rparr>]\<rparr>)"
proof -
  from assms(6) have none: "existingDirect d a b = None"
    using existingDirect_Some [of d a b] by (cases "existingDirect d a b") auto
  from assms(5) have vis: "visibilityOf (cb_visibility body)
      = Some (case cb_visibility body of Some (Some v) \<Rightarrow> v | _ \<Rightarrow> ''private'')"
    by (auto simp: visibilityOf_def split: option.splits)
  from conversations_POST_direct_request [OF assms(2,3,4), of a newId msgId now d] none
    createConversation_direct [OF assms(1,7) vis, of msgId now]
  show ?thesis
    by (simp add: newConversation_def ownerRow_def memberRow_def)
qed

text \<open>
  Claim C5. Let \<open>a\<close> and \<open>b\<close> be distinct identities with well-formed DIDs. If some direct
  conversation has both as participants, then the request of \<open>a\<close> for a direct
  conversation with \<open>b\<close>, and the request of \<open>b\<close> for one with \<open>a\<close>, both answer the same
  existing direct conversation between them, with the marker \<open>existing\<close>, and leave the
  database unchanged. If there is none, the request of \<open>a\<close> (with an unused id drawn for
  the new conversation, and a visibility that is not null) creates a direct conversation:
  one conversation row is added, created by \<open>a\<close>, and two participant rows, \<open>a\<close> with the
  role owner and no inviter, and \<open>b\<close> with the role member, invited by \<open>a\<close>; no message is
  added.
\<close>

theorem conversations_POST_direct:
  assumes "a \<noteq> b" "isValidDid a" "isValidDid b"
    and "cb_type bodyA = Some ''direct''" "cb_participantDids bodyA = Some [b]"
    and "cb_type bodyB = Some ''direct''" "cb_participantDids bodyB = Some [a]"
  shows "((\<exists>k. directBetween d k a b) \<longrightarrow>
           (\<exists>k conv. directBetween d k a b \<and> findConversation d k = Some conv \<and> c_id conv = k \<and>
              conversations_POST a bodyA newId msgId now d = (Json (Existing (Some conv)) 200, d) \<and>
              conversations_POST b bodyB newId' msgId' now' d
                = (Json (Existing (Some conv)) 200, d))) \<and>
         (\<not> (\<exists>k. directBetween d k a b) \<and> unusedConversationId d newId \<and>
          cb_visibility bodyA \<noteq> Some None \<longrightarrow>
            conversations_POST a bodyA newId msgId now d =
              (Json (Created (Some \<lparr>c_id = newId, c_type = ''direct'', c_name = orNull (cb_name bodyA),
                             c_description = orNull (cb_description bodyA),
                             c_visibility = (case cb_visibility bodyA of Some (Some v) \<Rightarrow> v | _ \<Rightarrow> ''private''),
                             c_createdBy = a, c_updatedAt = now, c_lastMessageAt = None\<rparr>)) 201,
               d\<lparr>conversations := conversations d @ [\<lparr>c_id = newId, c_type = ''direct'', c_name = orNull (cb_name bodyA),
                             c_description = orNull (cb_description bodyA),
                             c_visibility = (case cb_visibility bodyA of Some (Some v) \<Rightarrow> v | _ \<Rightarrow> ''private''),
                             c_createdBy = a, c_updatedAt = now, c_lastMessageAt = None\<rparr>],
                 participants := participants d @
                   [\<lparr>p_conversationId = newId, p_did = a, p_role = ''owner'', p_invitedBy = None\<rparr>,
                    \<lparr>p_conversationId = newId, p_did = b, p_role = ''member'', p_invitedBy = Some a\<rparr>]\<rparr>))"
proof (intro conjI impI)
  assume "\<exists>k. directBetween d k a b"
  then obtain k where e: "existingDirect d a b = Some k"
    using existingDirect_None [of d a b] by (cases "existingDirect d a b") auto
  from existingDirect_Some [OF e] have db: "directBetween d k a b" .
  from directBetween_findConversation [OF db] obtain conv where
    conv: "findConversation d k = Some conv" "c_id conv = k" by auto
  from e have e': "existingDirect d b a = Some k" by (simp add: existingDirect_commute)
  have "conversations_POST a bodyA newId msgId now d = (Json (Existing (Some conv)) 200, d)"
    using conversations_POST_direct_request [OF assms(3,4,5)] e conv by simp
  moreover
  have "conversations_POST b bodyB newId' msgId' now' d = (Json (Existing (Some conv)) 200, d)"
    using conversations_POST_direct_request [OF assms(2,6,7)] e' conv by simp
  ultimately show "\<exists>k conv. directBetween d k a b \<and> findConversation d k = Some conv \<and>
      c_id conv = k \<and>
      conversations_POST a bodyA newId msgId now d = (Json (Existing (Some conv)) 200, d) \<and>
      conversations_POST b bodyB newId' msgId' now' d = (Json (Existing (Some conv)) 200, d)"
    using db conv by blast
next
  assume h: "\<not> (\<exists>k. directBetween d k a b) \<and> unusedConversationId d newId \<and>
             cb_visibility bodyA \<noteq> Some None"
  then have h1: "cb_visibility bodyA \<noteq> Some None" "\<not> (\<exists>k. directBetween d k a b)"
    "unusedConversationId d newId"
    by simp_all
  show "conversations_POST a bodyA newId msgId now d =
          (Json (Created (Some \<lparr>c_id = newId, c_type = ''direct'', c_name = orNull (cb_name bodyA),
                         c_description = orNull (cb_description bodyA),
                         c_visibility = (case cb_visibility bodyA of Some (Some v) \<Rightarrow> v | _ \<Rightarrow> ''private''),
                         c_createdBy = a, c_updatedAt = now, c_lastMessageAt = None\<rparr>)) 201,
           d\<lparr>conversations := conversations d @ [\<lparr>c_id = newId, c_type = ''direct'', c_name = orNull (cb_name bodyA),
                         c_description = orNull (cb_description bodyA),
                         c_visibility = (case cb_visibility bodyA of Some (Some v) \<Rightarrow> v | _ \<Rightarrow> ''private''),
                         c_createdBy = a, c_updatedAt = now, c_lastMessageAt = None\<rparr>],
             participants := participants d @
               [\<lparr>p_conversationId = newId, p_did = a, p_role = ''owner'', p_invitedBy = None\<rparr>,
                \<lparr>p_conversationId = newId, p_did = b, p_role = ''member'', p_invitedBy = Some a\<rparr>]\<rparr>)"
    by (rule conversations_POST_direct_new [OF assms(1,3,4,5) h1])
qed

theorem conversations_POST_direct_witness:
  "fst (conversations_POST alice (directBody bob) ''conv_new'' ''msg_5'' 5000 sampleDb)
     = Json (Existing (findConversation sampleDb ''conv_ab'')) 200 \<and>
   snd (conversations_POST bob (directBody alice) ''conv_new'' ''msg_5'' 5000 sampleDb)
     = sampleDb \<and>
   fst (conversations_POST carol (directBody dave) ''conv_new'' ''msg_5'' 5000 sampleDb)
     = Json (Created (Some
         \<lparr>c_id = ''conv_new'', c_type = ''direct'', c_name = None, c_description = None,
          c_visibility = ''private'', c_createdBy = carol, c_updatedAt = 5000,
          c_lastMessageAt = None\<rparr>)) 201 \<and>
   participantsOf
     (snd (conversations_POST carol (directBody dave) ''conv_new'' ''msg_5'' 5000 sampleDb))
     ''conv_new''
     = [\<lparr>p_conversationId = ''conv_new'', p_did = carol, p_role = ''owner'', p_invitedBy = None\<rparr>,
        \<lparr>p_conversationId = ''conv_new'', p_did = dave, p_role = ''member'',
         p_invitedBy = Some carol\<rparr>]"
proof -
  have b: "cb_type (directBody x) = Some ''direct''" "cb_participantDids (directBody x) = Some [x]"
    for x by (simp_all add: directBody_def)
  have vis: "cb_visibility (directBody dave) \<noteq> Some None" by (simp add: directBody_def)
  have ab: "directBetween sampleDb k alice bob \<longleftrightarrow> k = ''conv_ab''" for k
    by (auto simp: directBetween_def findParticipant_def sample_defs)
  have cd: "\<not> (\<exists>k. directBetween sampleDb k carol dave)"
    by (auto simp: directBetween_def findParticipant_def sample_defs)
  have un: "unusedConversationId sampleDb ''conv_new''"
    by (simp add: unusedConversationId_def findConversation_def sample_defs)
  from ab have "\<exists>k. directBetween sampleDb k alice bob" by blast
  with conversations_POST_direct [OF sample_distinct(1) isValidDid_sample(1,2) b b,
      of sampleDb "''conv_new''" "''msg_5''" 5000 "''conv_new''" "''msg_5''" 5000]
  obtain k conv where k: "directBetween sampleDb k alice bob"
    and conv: "findConversation sampleDb k = Some conv"
    and ra: "conversations_POST alice (directBody bob) ''conv_new'' ''msg_5'' 5000 sampleDb
               = (Json (Existing (Some conv)) 200, sampleDb)"
    and rb: "conversations_POST bob (directBody alice) ''conv_new'' ''msg_5'' 5000 sampleDb
               = (Json (Existing (Some conv)) 200, sampleDb)"
    by blast
  from k ab have "k = ''conv_ab''" by simp
  with conv ra rb
  have 1: "fst (conversations_POST alice (directBody bob) ''conv_new'' ''msg_5'' 5000 sampleDb)
     = Json (Existing (findConversation sampleDb ''conv_ab'')) 200"
    and 2: "snd (conversations_POST bob (directBody alice) ''conv_new'' ''msg_5'' 5000 sampleDb)
     = sampleDb"
    by simp_all
  from conversations_POST_direct [OF sample_distinct(3) isValidDid_sample(3,4) b b,
      of sampleDb "''conv_new''" "''msg_5''" 5000 "''conv_new''" "''msg_5''" 5000] cd un vis
  have 3: "conversations_POST carol (directBody dave) ''conv_new'' ''msg_5'' 5000 sampleDb =
     (Json (Created (Some
         \<lparr>c_id = ''conv_new'', c_type = ''direct'', c_name = None, c_description = None,
          c_visibility = ''private'', c_createdBy = carol, c_updatedAt = 5000,
          c_lastMessageAt = None\<rparr>)) 201,
      sampleDb\<lparr>conversations := conversations sampleDb @
          [\<lparr>c_id = ''conv_new'', c_type = ''direct'', c_name = None, c_description = None,
            c_visibility = ''private'', c_createdBy = carol, c_updatedAt = 5000,
            c_lastMessageAt = None\<rparr>],
        participants := participants sampleDb @
          [\<lparr>p_conversationId = ''conv_new'', p_did = carol, p_role = ''owner'', p_invitedBy = None\<rparr>,
           \<lparr>p_conversationId = ''conv_new'', p_did = dave, p_role = ''member'',
            p_invitedBy = Some carol\<rparr>]\<rparr>)"
    by (simp add: directBody_def orNull_def)
  have 4: "participantsOf (sampleDb\<lparr>conversations := cs,
        participants := participants sampleDb @
          [\<lparr>p_conversationId = ''conv_new'', p_did = carol, p_role = ''owner'', p_invitedBy = None\<rparr>,
           \<lparr>p_conversationId = ''conv_new'', p_did = dave, p_role = ''member'',
            p_invitedBy = Some carol\<rparr>]\<rparr>) ''conv_new''
     = [\<lparr>p_conversationId = ''conv_new'', p_did = carol, p_role = ''owner'', p_invitedBy = None\<rparr>,
        \<lparr>p_conversationId = ''conv_new'', p_did = dave, p_role = ''member'',
         p_invitedBy = Some carol\<rparr>]" for cs
    by (simp add: participantsOf_def sample_defs)
  from 1 2 3 4 show ?thesis by simp
qed

section \<open>Direct conversations after their creation\<close>

lemma conversation_PATCH_frame:
  "participants (snd (conversation_PATCH me cid name description visibility now d))
     = participants d \<and>
   map c_id (conversations (snd (conversation_PATCH me cid name description visibility now d)))
     = map c_id (conversations d) \<and>
   map c_type (conversations (snd (conversation_PATCH me cid name description visibility now d)))
     = map c_type (conversations d)"
  by (auto simp: conversation_PATCH_def applyUpdates_def Let_def split: option.splits)

lemma findParticipant_conversations_update:
  "findParticipant (d\<lparr>conversations := cs\<rparr>) cid w = findParticipant d cid w"
  by (simp add: findParticipant_def)

lemma insertParticipant_conversations_update:
  "insertParticipant (d\<lparr>conversations := cs\<rparr>) p
     = map_option (\<lambda>x. x\<lparr>conversations := cs\<rparr>) (insertParticipant d p)"
  by (simp add: insertParticipant_def findParticipant_def)

lemma insertMessage_conversations_update:
  "insertMessage (d\<lparr>conversations := cs\<rparr>) m
     = map_option (\<lambda>x. x\<lparr>conversations := cs\<rparr>) (insertMessage d m)"
  by (simp add: insertMessage_def findMessage_def)

lemma deleteParticipant_conversations_update:
  "deleteParticipant (d\<lparr>conversations := cs\<rparr>) cid t
     = (deleteParticipant d cid t)\<lparr>conversations := cs\<rparr>"
  by (simp add: deleteParticipant_def)

lemma participants_POST_frame:
  "participants_POST me cid target role msgId now (d\<lparr>conversations := cs\<rparr>)
     = (fst (participants_POST me cid target role msgId now d),
        (snd (participants_POST me cid target role msgId now d))\<lparr>conversations := cs\<rparr>)"
  by (auto simp: participants_POST_def Let_def findParticipant_conversations_update
      insertParticipant_conversations_update insertMessage_conversations_update
      split: option.splits)

lemma participants_DELETE_frame:
  "participants_DELETE me cid didParam msgId now (d\<lparr>conversations := cs\<rparr>)
     = (fst (participants_DELETE me cid didParam msgId now d),
        (snd (participants_DELETE me cid didParam msgId now d))\<lparr>conversations := cs\<rparr>)"
  by (auto simp: participants_DELETE_def Let_def findParticipant_conversations_update
      deleteParticipant_conversations_update insertMessage_conversations_update
      split: option.splits)

lemma find_map_update:
  assumes "\<And>x. P (f x) = P x"
  shows "find P (map f xs) = map_option f (find P xs)"
  using assms by (induction xs) auto

lemma conversation_PATCH_name:
  assumes "findParticipant e cid me = Some p" "hasRole (p_role p) ''admin''"
    "visibility \<noteq> Some None" "findConversation e cid = Some c"
  shows "map_option c_name
           (findConversation (snd (conversation_PATCH me cid (Some v) description visibility now e))
              cid) = Some v"
proof -
  let ?f = "\<lambda>c. if c_id c = cid
                 then applyUpdates (Some v) description
                        (case visibility of Some (Some v) \<Rightarrow> v | _ \<Rightarrow> c_visibility c) now c
                 else c"
  have "find (\<lambda>c. c_id c = cid) (map ?f (conversations e))
          = map_option ?f (find (\<lambda>c. c_id c = cid) (conversations e))"
    by (rule find_map_update) (simp add: applyUpdates_def)
  moreover from assms(4) have "c_id c = cid"
    by (auto simp: findConversation_def dest: find_SomeD)
  ultimately show ?thesis
    using assms by (simp add: conversation_PATCH_def Let_def findConversation_def applyUpdates_def)
qed

text \<open>
  Claim C4, amended. A direct conversation that \<open>a\<close> creates with another identity \<open>b\<close>
  (no direct conversation between them existing, the id drawn being unused, the visibility
  of the request not null) has, right after its creation, exactly two participants with
  distinct DIDs: \<open>a\<close> with the role owner and no inviter, and \<open>b\<close> with the role member,
  invited by \<open>a\<close>; its name is the name of the request. The update of a conversation
  (PATCH) changes neither the participant rows nor the id or type of any conversation, but
  it sets the name that an admin or owner gives, whatever the type of the conversation.
  Adding and removing a participant do not read the table of conversations, so not the type
  either: with any other content of that table they give the same reply and make the same
  changes.
\<close>

theorem direct_conversation_after_creation:
  assumes "a \<noteq> b" "isValidDid b"
    and "cb_type body = Some ''direct''" "cb_participantDids body = Some [b]"
    and "cb_visibility body \<noteq> Some None"
    and "\<not> (\<exists>k. directBetween d k a b)" "unusedConversationId d newId"
  shows "(\<exists>conv d'. conversations_POST a body newId msgId now d
                       = (Json (Created (Some conv)) 201, d') \<and>
            c_id conv = newId \<and> c_type conv = ''direct'' \<and> c_name conv = orNull (cb_name body) \<and>
            c_createdBy conv = a \<and>
            findConversation d' newId = Some conv \<and>
            participantsOf d' newId =
               [\<lparr>p_conversationId = newId, p_did = a, p_role = ''owner'', p_invitedBy = None\<rparr>,
                 \<lparr>p_conversationId = newId, p_did = b, p_role = ''member'',
                  p_invitedBy = Some a\<rparr>] \<and>
            length (participantsOf d' newId) = 2 \<and>
            distinct (map p_did (participantsOf d' newId))) \<and>
         participants (snd (conversation_PATCH me cid name description visibility now' e))
           = participants e \<and>
         map c_id (conversations (snd (conversation_PATCH me cid name description visibility now' e)))
           = map c_id (conversations e) \<and>
         map c_type (conversations (snd (conversation_PATCH me cid name description visibility now' e)))
           = map c_type (conversations e) \<and>
         (findParticipant e cid me = Some p \<and> hasRole (p_role p) ''admin'' \<and>
          visibility \<noteq> Some None \<and> findConversation e cid = Some c \<longrightarrow>
            map_option c_name
              (findConversation
                 (snd (conversation_PATCH me cid (Some v) description visibility now' e)) cid)
              = Some v) \<and>
         participants_POST me cid target role msgId' now' (e\<lparr>conversations := cs\<rparr>)
           = (fst (participants_POST me cid target role msgId' now' e),
              (snd (participants_POST me cid target role msgId' now' e))\<lparr>conversations := cs\<rparr>) \<and>
         participants_DELETE me cid didParam msgId' now' (e\<lparr>conversations := cs\<rparr>)
           = (fst (participants_DELETE me cid didParam msgId' now' e),
              (snd (participants_DELETE me cid didParam msgId' now' e))\<lparr>conversations := cs\<rparr>)"
proof -
  let ?conv = "\<lparr>c_id = newId, c_type = ''direct'', c_name = orNull (cb_name body),
                 c_description = orNull (cb_description body),
                 c_visibility = (case cb_visibility body of Some (Some v) \<Rightarrow> v | _ \<Rightarrow> ''private''),
                 c_createdBy = a, c_updatedAt = now, c_lastMessageAt = None\<rparr>"
  let ?rows = "[\<lparr>p_conversationId = newId, p_did = a, p_role = ''owner'', p_invitedBy = None\<rparr>,
                \<lparr>p_conversationId = newId, p_did = b, p_role = ''member'',
                 p_invitedBy = Some a\<rparr>]"
  let ?d' = "d\<lparr>conversations := conversations d @ [?conv],
              participants := participants d @ ?rows\<rparr>"
  from conversations_POST_direct_new [OF assms, of msgId now]
  have r: "conversations_POST a body newId msgId now d = (Json (Created (Some ?conv)) 201, ?d')" .
  from assms(7) have "filter (\<lambda>p. p_conversationId p = newId) (participants d) = []"
    by (auto simp: unusedConversationId_def filter_empty_conv)
  then have p: "participantsOf ?d' newId = ?rows"
    by (simp add: participantsOf_def)
  from assms(7) have f: "findConversation ?d' newId = Some ?conv"
    by (simp add: unusedConversationId_def findConversation_def find_append_absent)
  have c: "c_id ?conv = newId" "c_type ?conv = ''direct''" "c_name ?conv = orNull (cb_name body)"
    "c_createdBy ?conv = a"
    by simp_all
  from assms(1) have dist: "distinct (map p_did ?rows)"
    by simp
  from r p f c dist have created: "\<exists>conv d'. conversations_POST a body newId msgId now d
                       = (Json (Created (Some conv)) 201, d') \<and>
            c_id conv = newId \<and> c_type conv = ''direct'' \<and> c_name conv = orNull (cb_name body) \<and>
            c_createdBy conv = a \<and>
            findConversation d' newId = Some conv \<and>
            participantsOf d' newId =
               [\<lparr>p_conversationId = newId, p_did = a, p_role = ''owner'', p_invitedBy = None\<rparr>,
                 \<lparr>p_conversationId = newId, p_did = b, p_role = ''member'',
                  p_invitedBy = Some a\<rparr>] \<and>
            length (participantsOf d' newId) = 2 \<and>
            distinct (map p_did (participantsOf d' newId))"
    by (intro exI [of _ ?conv] exI [of _ ?d']) simp
  note frame = conversation_PATCH_frame [of me cid name description visibility now' e]
  show ?thesis
  proof (intro conjI impI)
    show "\<exists>conv d'. conversations_POST a body newId msgId now d
                       = (Json (Created (Some conv)) 201, d') \<and>
            c_id conv = newId \<and> c_type conv = ''direct'' \<and> c_name conv = orNull (cb_name body) \<and>
            c_createdBy conv = a \<and>
            findConversation d' newId = Some conv \<and>
            participantsOf d' newId =
               [\<lparr>p_conversationId = newId, p_did = a, p_role = ''owner'', p_invitedBy = None\<rparr>,
                 \<lparr>p_conversationId = newId, p_did = b, p_role = ''member'',
                  p_invitedBy = Some a\<rparr>] \<and>
            length (participantsOf d' newId) = 2 \<and>
            distinct (map p_did (participantsOf d' newId))"
      by (rule created)
    show "participants (snd (conversation_PATCH me cid name description visibility now' e))
            = participants e"
      using frame by blast
    show "map c_id (conversations (snd (conversation_PATCH me cid name description visibility now' e)))
            = map c_id (conversations e)"
      using frame by blast
    show "map c_type (conversations (snd (conversation_PATCH me cid name description visibility now' e)))
            = map c_type (conversations e)"
      using frame by blast
    show "participants_POST me cid target role msgId' now' (e\<lparr>conversations := cs\<rparr>)
           = (fst (participants_POST me cid target role msgId' now' e),
              (snd (participants_POST me cid target role msgId' now' e))\<lparr>conversations := cs\<rparr>)"
      by (rule participants_POST_frame)
    show "participants_DELETE me cid didParam msgId' now' (e\<lparr>conversations := cs\<rparr>)
           = (fst (participants_DELETE me cid didParam msgId' now' e),
              (snd (participants_DELETE me cid didParam msgId' now' e))\<lparr>conversations := cs\<rparr>)"
      by (rule participants_DELETE_frame)
  next
    assume "findParticipant e cid me = Some p \<and> hasRole (p_role p) ''admin'' \<and>
            visibility \<noteq> Some None \<and> findConversation e cid = Some c"
    then show "map_option c_name
              (findConversation
                 (snd (conversation_PATCH me cid (Some v) description visibility now' e)) cid)
              = Some v"
      using conversation_PATCH_name by blast
  qed
qed

theorem direct_conversation_after_creation_witness:
  "participantsOf
     (snd (conversations_POST carol (directBody dave) ''conv_new'' ''msg_5'' 5000 sampleDb))
     ''conv_new''
     = [\<lparr>p_conversationId = ''conv_new'', p_did = carol, p_role = ''owner'', p_invitedBy = None\<rparr>,
        \<lparr>p_conversationId = ''conv_new'', p_did = dave, p_role = ''member'',
         p_invitedBy = Some carol\<rparr>] \<and>
   participants (snd (conversation_PATCH alice ''conv_ab'' None None None 5000 sampleDb))
     = participants sampleDb \<and>
   map_option c_name
     (findConversation
        (snd (conversation_PATCH alice ''conv_ab'' (Some (Some ''Renamed'')) None None
                5000 sampleDb)) ''conv_ab'') = Some (Some ''Renamed'')"
proof -
  have b: "cb_type (directBody dave) = Some ''direct''"
    "cb_participantDids (directBody dave) = Some [dave]"
    "cb_visibility (directBody dave) \<noteq> Some None"
    by (simp_all add: directBody_def)
  have cd: "\<not> (\<exists>k. directBetween sampleDb k carol dave)"
    by (auto simp: directBetween_def findParticipant_def sample_defs)
  have un: "unusedConversationId sampleDb ''conv_new''"
    by (simp add: unusedConversationId_def findConversation_def sample_defs)
  have adm: "hasRole ''owner'' ''admin''" by (rule hasRole_any_owner)
  have fc: "\<exists>c. findConversation sampleDb ''conv_ab'' = Some c"
    by (simp add: findConversation_def sample_defs)
  then obtain c where c: "findConversation sampleDb ''conv_ab'' = Some c" by blast
  note t = direct_conversation_after_creation [OF sample_distinct(3) isValidDid_sample(4) b cd un,
      where msgId = "''msg_5''" and now = 5000 and me = alice and cid = "''conv_ab''"
        and name = None and description = None and visibility = None and now' = 5000
        and e = sampleDb and c = c and v = "Some ''Renamed''" and target = carol and role = None
        and msgId' = "''msg_5''" and cs = "[]" and didParam = None
        and p = "\<lparr>p_conversationId = ''conv_ab'', p_did = alice, p_role = ''owner'',
                  p_invitedBy = None\<rparr>"]
  from t have 1: "participantsOf
     (snd (conversations_POST carol (directBody dave) ''conv_new'' ''msg_5'' 5000 sampleDb))
     ''conv_new''
     = [\<lparr>p_conversationId = ''conv_new'', p_did = carol, p_role = ''owner'', p_invitedBy = None\<rparr>,
        \<lparr>p_conversationId = ''conv_new'', p_did = dave, p_role = ''member'',
         p_invitedBy = Some carol\<rparr>]"
    by auto
  from t have 2: "participants (snd (conversation_PATCH alice ''conv_ab'' None None None 5000
                                       sampleDb)) = participants sampleDb"
    by blast
  from t findParticipant_sample(6) adm c
  have 3: "map_option c_name
     (findConversation
        (snd (conversation_PATCH alice ''conv_ab'' (Some (Some ''Renamed'')) None None
                5000 sampleDb)) ''conv_ab'') = Some (Some ''Renamed'')"
    by simp
  from 1 2 3 show ?thesis by blast
qed

text \<open>
  Claim C4 as it is written fails: \<open>conv_ab\<close> is a direct conversation with the two
  participants alice and bob and no name. Its owner alice renames it with PATCH; she adds
  carol to it, and it has three participants; bob leaves it, and it has one.
\<close>

theorem direct_conversation_counterexample:
  "map_option c_type (findConversation sampleDb ''conv_ab'') = Some ''direct'' \<and>
   map p_did (participantsOf sampleDb ''conv_ab'') = [alice, bob] \<and>
   map_option c_name (findConversation sampleDb ''conv_ab'') = Some None \<and>
   map_option c_name
     (findConversation
        (snd (conversation_PATCH alice ''conv_ab'' (Some (Some ''Renamed'')) None None
                5000 sampleDb)) ''conv_ab'') = Some (Some ''Renamed'') \<and>
   map p_did (participantsOf
                (snd (participants_POST alice ''conv_ab'' carol None ''msg_5'' 5000 sampleDb))
                ''conv_ab'') = [alice, bob, carol] \<and>
   map p_did (participantsOf
                (snd (participants_DELETE bob ''conv_ab'' (Some bob) ''msg_5'' 5000 sampleDb))
                ''conv_ab'') = [alice]"
  by (simp add: findConversation_def participantsOf_def conversation_PATCH_def applyUpdates_def
      participants_POST_def participants_DELETE_def findParticipant_def insertParticipant_def
      deleteParticipant_def insertMessage_def findMessage_def systemMessage_def
      hasRole_def indexOf_def hierarchy_def isValidDid_def isAlnum_def Let_def sample_defs)

section \<open>The owner of a conversation\<close>

lemma filter_map_unchanged:
  assumes "\<And>x. x \<in> set xs \<Longrightarrow> P (f x) = P x \<and> (P x \<longrightarrow> f x = x)"
  shows "filter P (map f xs) = filter P xs"
  using assms by (induction xs) auto

lemma filter_filter_unchanged:
  assumes "\<And>x. x \<in> set xs \<Longrightarrow> P x \<Longrightarrow> Q x"
  shows "filter P (filter Q xs) = filter P xs"
  using assms by (induction xs) auto

lemma find_unique_key:
  assumes "distinct (map key xs)" "find (\<lambda>x. key x = k) xs = Some y" "x \<in> set xs" "key x = k"
  shows "x = y"
proof -
  from find_SomeD [OF assms(2)] have "y \<in> set xs" "key y = k" by auto
  with assms(1,3,4) show ?thesis by (metis distinct_map inj_onD)
qed

lemma ownersOf_messages_update: "ownersOf (d\<lparr>messages := ms\<rparr>) c = ownersOf d c"
  by (simp add: ownersOf_def participantsOf_def)

lemma insertMessage_ownersOf:
  "insertMessage d m = Some d' \<Longrightarrow> ownersOf d' c = ownersOf d c"
  by (auto simp: insertMessage_def ownersOf_def participantsOf_def split: if_splits)

lemma ownersOf_alt:
  "ownersOf d c = filter (\<lambda>p. p_conversationId p = c \<and> p_role p = ''owner'') (participants d)"
  by (simp add: ownersOf_def participantsOf_def)

lemma participants_updateRole:
  "participants (updateRole d cid target role)
     = map (\<lambda>p. if p_conversationId p = cid \<and> p_did p = target then p\<lparr>p_role := role\<rparr> else p)
         (participants d)"
  by (simp add: updateRole_def)

lemma participants_deleteParticipant:
  "participants (deleteParticipant d cid target)
     = filter (\<lambda>p. \<not> (p_conversationId p = cid \<and> p_did p = target)) (participants d)"
  by (simp add: deleteParticipant_def)

lemma ownersOf_updateRole:
  assumes "role \<noteq> ''owner''"
    and "\<And>p. p \<in> set (participants d) \<Longrightarrow> p_conversationId p = cid \<Longrightarrow> p_did p = target
            \<Longrightarrow> p_role p \<noteq> ''owner''"
  shows "ownersOf (updateRole d cid target role) c = ownersOf d c"
  unfolding ownersOf_alt participants_updateRole
  by (rule filter_map_unchanged) (use assms in auto)

lemma ownersOf_deleteParticipant:
  assumes "\<And>p. p \<in> set (participants d) \<Longrightarrow> p_conversationId p = cid \<Longrightarrow> p_did p = target
            \<Longrightarrow> p_role p \<noteq> ''owner''"
  shows "ownersOf (deleteParticipant d cid target) c = ownersOf d c"
  unfolding ownersOf_alt participants_deleteParticipant
  by (rule filter_filter_unchanged) (use assms in auto)

text \<open>
  Changing a role keeps the owners of a conversation that has one owner: the requester must
  be that owner, may not name himself, and may give only the roles readonly, member and
  admin.
\<close>

lemma participants_PATCH_owners:
  assumes one: "length (ownersOf d cid) = 1"
  shows "ownersOf (snd (participants_PATCH me cid target role msgId now d)) cid = ownersOf d cid"
proof (cases "\<exists>my. isValidDid target \<and> role \<in> set [''readonly'', ''member'', ''admin''] \<and>
                findParticipant d cid me = Some my \<and> p_role my = ''owner'' \<and> target \<noteq> me")
  case False
  then have "snd (participants_PATCH me cid target role msgId now d) = d"
    by (auto simp: participants_PATCH_def split: option.splits)
  then show ?thesis by simp
next
  case True
  then obtain my where my: "findParticipant d cid me = Some my" "p_role my = ''owner''"
    and t: "target \<noteq> me" and r: "role \<noteq> ''owner''" and v: "isValidDid target"
    "role \<in> set [''readonly'', ''member'', ''admin'']"
    by auto
  from my(1) have m: "my \<in> set (participants d)" "p_conversationId my = cid" "p_did my = me"
    unfolding findParticipant_def by (auto dest: find_SomeD)
  with my(2) have "my \<in> set (ownersOf d cid)" by (simp add: ownersOf_def participantsOf_def)
  with one have all: "set (ownersOf d cid) = {my}"
    by (cases "ownersOf d cid") auto
  have no: "p_role p \<noteq> ''owner''"
    if "p \<in> set (participants d)" "p_conversationId p = cid" "p_did p = target" for p
  proof
    assume "p_role p = ''owner''"
    with that have "p \<in> set (ownersOf d cid)" by (simp add: ownersOf_def participantsOf_def)
    with all have "p = my" by simp
    with that(3) m(3) t show False by simp
  qed
  have u: "ownersOf (updateRole d cid target role) cid = ownersOf d cid"
    by (rule ownersOf_updateRole [OF r no])
  show ?thesis
  proof (cases "insertMessage (updateRole d cid target role)
                  (systemMessage msgId cid me
                     (me @ '' changed '' @ target @ [CHR 0x27] @ ''s role to '' @ role) now)")
    case None
    with my t v have "snd (participants_PATCH me cid target role msgId now d)
                      = updateRole d cid target role"
      by (simp add: participants_PATCH_def Let_def)
    with u show ?thesis by simp
  next
    case (Some d2)
    with my t v have "snd (participants_PATCH me cid target role msgId now d) = d2"
      by (simp add: participants_PATCH_def Let_def)
    with insertMessage_ownersOf [OF Some] u show ?thesis by simp
  qed
qed

text \<open>
  Removing a participant keeps the owners as well, the primary key of \<open>participants\<close>
  holding: the owner cannot leave, and nobody outranks an owner.
\<close>

lemma participants_DELETE_owners:
  assumes pk: "distinct (map (\<lambda>p. (p_conversationId p, p_did p)) (participants d))"
  shows "ownersOf (snd (participants_DELETE me cid didParam msgId now d)) c = ownersOf d c"
proof (cases "\<exists>target my tp. didParam = Some target \<and> isValidDid target \<and>
                findParticipant d cid me = Some my \<and> findParticipant d cid target = Some tp \<and>
                (target = me \<or> hasRole (p_role my) ''admin'') \<and>
                (target = me \<longrightarrow> p_role my \<noteq> ''owner'') \<and>
                (target \<noteq> me \<longrightarrow> \<not> hasRole (p_role tp) (p_role my))")
  case False
  then have "snd (participants_DELETE me cid didParam msgId now d) = d"
    by (auto simp: participants_DELETE_def Let_def split: option.splits)
  then show ?thesis by simp
next
  case True
  then obtain target my tp where c: "didParam = Some target" "isValidDid target"
    "findParticipant d cid me = Some my" "findParticipant d cid target = Some tp"
    "target = me \<or> hasRole (p_role my) ''admin''"
    "target = me \<longrightarrow> p_role my \<noteq> ''owner''"
    "target \<noteq> me \<longrightarrow> \<not> hasRole (p_role tp) (p_role my)"
    by blast
  have tp: "p_role tp \<noteq> ''owner''"
  proof (cases "target = me")
    case True
    with c show ?thesis by simp
  next
    case False
    with c(7) hasRole_any_owner [of "p_role my"] show ?thesis by auto
  qed
  have no: "p_role p \<noteq> ''owner''"
    if "p \<in> set (participants d)" "p_conversationId p = cid" "p_did p = target" for p
  proof -
    from c(4) have "find (\<lambda>p. (p_conversationId p, p_did p) = (cid, target)) (participants d)
                    = Some tp"
      by (simp add: findParticipant_def)
    from find_unique_key [OF pk this that(1)] that(2,3) have "p = tp" by simp
    with tp show ?thesis by simp
  qed
  have u: "ownersOf (deleteParticipant d cid target) c = ownersOf d c"
    by (rule ownersOf_deleteParticipant [OF no])
  let ?m = "systemMessage msgId cid me
              (me @ '' '' @ (if target = me then ''left the group'' else ''removed '' @ target)) now"
  show ?thesis
  proof (cases "insertMessage (deleteParticipant d cid target) ?m")
    case None
    with c have "snd (participants_DELETE me cid didParam msgId now d)
                 = deleteParticipant d cid target"
      by (auto simp: participants_DELETE_def Let_def isValidDid_nonempty)
    with u show ?thesis by simp
  next
    case (Some d2)
    with c have "snd (participants_DELETE me cid didParam msgId now d) = d2"
      by (auto simp: participants_DELETE_def Let_def isValidDid_nonempty)
    with insertMessage_ownersOf [OF Some] u show ?thesis by simp
  qed
qed

text \<open>
  Claim C1 says that a conversation has exactly one owner at all times, whatever
  participants are added, changed and removed. Changing a role and removing a participant
  keep the owners, as the two lemmas above show. The handler that adds a participant does
  not: it stores the role of the request as it is, where the handler that changes a role
  accepts only readonly, member and admin. In the sample database, where the group has the
  one owner alice, alice adds erin with the role owner, the request succeeds, and the group
  has two owners.
\<close>

theorem participants_POST_second_owner:
  "length (ownersOf sampleDb ''conv_launch'') = 1 \<and>
   fst (participants_POST alice ''conv_launch'' erin (Some ''owner'') ''msg_5'' 5000 sampleDb)
     = Json (Participant (Some \<lparr>p_conversationId = ''conv_launch'', p_did = erin,
                                 p_role = ''owner'', p_invitedBy = Some alice\<rparr>)) 201 \<and>
   length (ownersOf (snd (participants_POST alice ''conv_launch'' erin (Some ''owner'')
                            ''msg_5'' 5000 sampleDb)) ''conv_launch'') = 2"
  by (simp add: participants_POST_def findParticipant_def insertParticipant_def
      insertMessage_def findMessage_def systemMessage_def ownersOf_def participantsOf_def
      Let_def hasRole_def indexOf_def hierarchy_def isValidDid_def isAlnum_def sample_defs)

end
